theory Spec2Isabelle
  imports Complex_Main "HOL-Library.Sublist" "HOL-Library.AList"
begin

section \<open>Text processing: \<^verbatim>\<open>src/text_processor.py\<close>\<close>

text \<open>
  Python strings are modelled as \<^typ>\<open>string\<close>.  The whitespace class is the one that both
  the regular expression \<^verbatim>\<open>\s\<close> and \<^verbatim>\<open>str.strip()\<close> use (\<^verbatim>\<open>str.isspace\<close>), restricted
  to the code points an 8-bit character can hold: TAB, LF, VT, FF, CR, the separators
  0x1C to 0x1F, the blank, NEL (0x85) and the no-break space (0xA0).
\<close>

definition newline :: char where
  "newline = CHR 0x0A"

definition is_space :: "char \<Rightarrow> bool" where
  "is_space c \<longleftrightarrow>
     c \<in> set [CHR 0x09, CHR 0x0A, CHR 0x0B, CHR 0x0C, CHR 0x0D,
              CHR 0x1C, CHR 0x1D, CHR 0x1E, CHR 0x1F, CHR 0x20, CHR 0x85, CHR 0xA0]"

text \<open>\<^verbatim>\<open>text.strip()\<close>: whitespace removed at both ends.\<close>

definition strip :: "string \<Rightarrow> string" where
  "strip s = rev (dropWhile is_space (rev (dropWhile is_space s)))"

text \<open>
  \<^verbatim>\<open>re.sub(r'\s+', ' ', text)\<close>: every maximal run of whitespace is replaced by one blank.
\<close>

function collapse_ws :: "string \<Rightarrow> string" where
  "collapse_ws [] = []"
| "collapse_ws (c # cs) =
     (if is_space c then CHR 0x20 # collapse_ws (dropWhile is_space cs)
      else c # collapse_ws cs)"
  by pat_completeness auto
termination
  by (relation "measure length") (auto simp: length_dropWhile_le less_Suc_eq_le)

text \<open>
  \<^verbatim>\<open>re.sub(r'\n\s*\n', '\n\n', text)\<close>: a match starts at a line feed; the greedy
  \<^verbatim>\<open>\s*\<close> takes the whole whitespace run behind it and backtracks to the last line feed
  of that run.  The match is replaced by two line feeds and the scan resumes behind it.
\<close>

definition after_last_newline :: "string \<Rightarrow> string" where
  "after_last_newline run = rev (takeWhile (\<lambda>x. x \<noteq> newline) (rev run))"

function normalize_breaks :: "string \<Rightarrow> string" where
  "normalize_breaks [] = []"
| "normalize_breaks (c # cs) =
     (if c = newline \<and> newline \<in> set (takeWhile is_space cs)
      then newline # newline #
             normalize_breaks (after_last_newline (takeWhile is_space cs) @ dropWhile is_space cs)
      else c # normalize_breaks cs)"
  by pat_completeness auto
termination
proof (relation "measure length")
  show "wf (measure length)" by simp
next
  fix c :: char and cs :: string
  have "length (takeWhile (\<lambda>x. x \<noteq> newline) (rev (takeWhile is_space cs)))
          \<le> length (takeWhile is_space cs)"
    using length_takeWhile_le [of "\<lambda>x. x \<noteq> newline" "rev (takeWhile is_space cs)"] by simp
  moreover have "length (takeWhile is_space cs) + length (dropWhile is_space cs) = length cs"
    using takeWhile_dropWhile_id [of is_space cs] by (metis length_append)
  ultimately show
    "(after_last_newline (takeWhile is_space cs) @ dropWhile is_space cs, c # cs) \<in> measure length"
    by (simp add: after_last_newline_def)
next
  fix c :: char and cs :: string
  show "(cs, c # cs) \<in> measure length" by simp
qed

text \<open>\<^verbatim>\<open>TextProcessor.clean_text\<close>\<close>

definition clean_text :: "string \<Rightarrow> string" where
  "clean_text text = strip (normalize_breaks (collapse_ws text))"

text \<open>
  \<^verbatim>\<open>re.split(r'\n\n+', text)\<close>: the text is cut at every maximal run of two or more line
  feeds; \<open>acc\<close> holds the piece being read, reversed.
\<close>

function split_blank :: "string \<Rightarrow> string \<Rightarrow> string list" where
  "split_blank acc [] = [rev acc]"
| "split_blank acc (c # cs) =
     (if c = newline \<and> cs \<noteq> [] \<and> hd cs = newline
      then rev acc # split_blank [] (dropWhile (\<lambda>x. x = newline) cs)
      else split_blank (c # acc) cs)"
  by pat_completeness auto
termination
  by (relation "measure (\<lambda>(acc, s). length s)") (auto simp: length_dropWhile_le less_Suc_eq_le)

definition split_paragraphs :: "string \<Rightarrow> string list" where
  "split_paragraphs text = split_blank [] text"

text \<open>
  The loop of \<^verbatim>\<open>chunk_text\<close> over the paragraphs.  Its state is the triple
  (\<^verbatim>\<open>chunks\<close>, \<^verbatim>\<open>current_chunk\<close>, \<^verbatim>\<open>current_token_count\<close>).  The estimate
  \<^verbatim>\<open>len(paragraph) / 4\<close> is a multiple of a quarter, which the floating-point numbers
  of Python hold exactly, so the counts are rational numbers.
\<close>

fun chunk_loop :: "rat \<Rightarrow> string list \<Rightarrow> string list \<times> string \<times> rat \<Rightarrow> string list \<times> string \<times> rat" where
  "chunk_loop max_tokens [] st = st"
| "chunk_loop max_tokens (paragraph # ps) (chunks, current_chunk, current_token_count) =
     (let paragraph_tokens = of_nat (length paragraph) / 4 in
      if current_token_count + paragraph_tokens > max_tokens \<and> current_chunk \<noteq> []
      then chunk_loop max_tokens ps (chunks @ [strip current_chunk], paragraph, paragraph_tokens)
      else chunk_loop max_tokens ps
             (chunks,
              if current_chunk \<noteq> [] then current_chunk @ [newline, newline] @ paragraph
              else paragraph,
              current_token_count + paragraph_tokens))"

text \<open>\<^verbatim>\<open>TextProcessor.chunk_text\<close>\<close>

definition chunk_text :: "string \<Rightarrow> rat \<Rightarrow> string list" where
  "chunk_text text max_tokens =
     (case chunk_loop max_tokens (split_paragraphs (clean_text text)) ([], [], 0) of
        (chunks, current_chunk, current_token_count) \<Rightarrow>
          if current_chunk \<noteq> [] then chunks @ [strip current_chunk] else chunks)"

text \<open>\<^verbatim>\<open>sep.join(xs)\<close>\<close>

fun join :: "string \<Rightarrow> string list \<Rightarrow> string" where
  "join sep [] = []"
| "join sep [x] = x"
| "join sep (x # y # ys) = x @ sep @ join sep (y # ys)"

text \<open>
  \<^verbatim>\<open>TextProcessor.summarize_chunks\<close>: a difference in length is only logged; the summaries
  are joined with a blank line.
\<close>

definition summarize_chunks :: "string list \<Rightarrow> string list \<Rightarrow> string" where
  "summarize_chunks chunks model_output = join [newline, newline] model_output"

section \<open>The retrying caller: \<^verbatim>\<open>GeminiHandler._call_with_retry\<close>\<close>

text \<open>
  The generation capability \<^verbatim>\<open>self.model.generate_content(prompt)\<close> followed by
  \<^verbatim>\<open>response.text\<close> is an external, stateful service.  It is a parameter of the model: a
  function of the number of calls made before and of the prompt, which either gives the
  response text or fails with an exception whose \<^verbatim>\<open>str(e)\<close> is the given message.
\<close>

datatype outcome = Response string | Failure string

type_synonym capability = "nat \<Rightarrow> string \<Rightarrow> outcome"

text \<open>
  \<^verbatim>\<open>random.uniform(0, 1)\<close> is a parameter too: the value of the \<open>n\<close>-th draw.
\<close>

type_synonym jitter = "nat \<Rightarrow> real"

text \<open>
  The effects on the outside: how many generation calls and random draws were made, and the
  durations handed to \<^verbatim>\<open>time.sleep\<close>, in order.
\<close>

record world =
  calls :: nat
  draws :: nat
  sleeps :: "real list"

text \<open>\<^verbatim>\<open>sub in s\<close> for strings.\<close>

fun contains :: "string \<Rightarrow> string \<Rightarrow> bool" where
  "contains sub [] = (sub = [])"
| "contains sub (c # cs) = (prefix sub (c # cs) \<or> contains sub cs)"

text \<open>
  Exceptions are told apart by their class, as the handlers of the source do:
  \<^verbatim>\<open>RequestException\<close> of the requests library, the \<^verbatim>\<open>ValueError\<close> and the
  \<^verbatim>\<open>OverflowError\<close> that \<^verbatim>\<open>time.sleep\<close> raises, and \<open>OtherException\<close> for an exception
  of any other class that a library raises.
\<close>

datatype exn = RequestException | OtherException | ValueError | OverflowError

text \<open>
  \<^verbatim>\<open>time.sleep(seconds)\<close> raises \<^verbatim>\<open>ValueError\<close> for a negative length and
  \<^verbatim>\<open>OverflowError\<close> for a length whose nanoseconds do not fit a signed 64-bit integer;
  otherwise the pause is recorded.  \<open>sleep_message\<close> is the text of these exceptions for
  a floating-point length.
\<close>

definition sleep_limit :: real where
  "sleep_limit = 2 ^ 63 / 10 ^ 9"

definition time_sleep :: "real \<Rightarrow> world \<Rightarrow> exn + world" where
  "time_sleep seconds w =
     (if seconds < 0 then Inl ValueError
      else if sleep_limit < seconds then Inl OverflowError
      else Inr (w\<lparr>sleeps := sleeps w @ [seconds]\<rparr>))"

definition sleep_message :: "exn \<Rightarrow> string" where
  "sleep_message ex =
     (if ex = ValueError then ''sleep length must be non-negative''
      else ''timestamp out of range for platform time_t'')"

text \<open>
  \<^verbatim>\<open>(base_delay ** retries) + random.uniform(0, 1)\<close>, with the drawn value \<open>u\<close>.  The power
  is an exact integer; the sum converts it to a floating-point number, which raises
  \<^verbatim>\<open>OverflowError\<close> (\<open>None\<close>) when the integer rounds to \<open>2 ^ 1024\<close> or beyond.  The
  rounding of the sum itself is not modelled: the delay is a real number.
\<close>

definition float_limit :: int where
  "float_limit = 2 ^ 1024 - 2 ^ 970"

definition float_overflow :: "int \<Rightarrow> bool" where
  "float_overflow n \<longleftrightarrow> float_limit \<le> \<bar>n\<bar>"

definition delay_value :: "int \<Rightarrow> nat \<Rightarrow> real \<Rightarrow> real" where
  "delay_value base_delay retries u = real_of_int (base_delay ^ retries) + u"

definition backoff_delay :: "int \<Rightarrow> nat \<Rightarrow> real \<Rightarrow> real option" where
  "backoff_delay base_delay retries u =
     (if float_overflow (base_delay ^ retries) then None
      else Some (delay_value base_delay retries u))"

text \<open>
  What a call of \<^verbatim>\<open>_call_with_retry\<close> ends with: the response text, an exception (given
  by its message: the exception of the capability raised again, or the one raised by the
  delay computation or by \<^verbatim>\<open>time.sleep\<close> inside the handler), or \<^verbatim>\<open>None\<close> when the loop
  condition fails and the function body ends without a \<^verbatim>\<open>return\<close>.
\<close>

datatype call_result = Returned string | Raised string | ReturnedNone

function retry_loop ::
  "capability \<Rightarrow> jitter \<Rightarrow> string \<Rightarrow> int \<Rightarrow> int \<Rightarrow> nat \<Rightarrow> world \<Rightarrow> call_result \<times> world" where
  "retry_loop cap jit prompt max_retries base_delay retries w =
     (if int retries \<le> max_retries then
        (case cap (calls w) prompt of
           Response text \<Rightarrow> (Returned text, w\<lparr>calls := Suc (calls w)\<rparr>)
         | Failure msg \<Rightarrow>
             if contains ''429'' msg \<and> int retries < max_retries
             then (case backoff_delay base_delay retries (jit (draws w)) of
                     None \<Rightarrow>
                       (Raised ''int too large to convert to float'',
                        w\<lparr>calls := Suc (calls w), draws := Suc (draws w)\<rparr>)
                   | Some delay \<Rightarrow>
                       (case time_sleep delay
                               (w\<lparr>calls := Suc (calls w), draws := Suc (draws w)\<rparr>) of
                          Inl ex \<Rightarrow>
                            (Raised (sleep_message ex),
                             w\<lparr>calls := Suc (calls w), draws := Suc (draws w)\<rparr>)
                        | Inr w' \<Rightarrow>
                            retry_loop cap jit prompt max_retries base_delay (Suc retries) w'))
             else (Raised msg, w\<lparr>calls := Suc (calls w)\<rparr>))
      else (ReturnedNone, w))"
  by pat_completeness auto
termination
  by (relation "measure (\<lambda>(cap, jit, prompt, max_retries, base_delay, retries, w).
                  nat (max_retries - int retries))") auto

declare retry_loop.simps [simp del]

definition call_with_retry ::
  "capability \<Rightarrow> jitter \<Rightarrow> string \<Rightarrow> int \<Rightarrow> int \<Rightarrow> world \<Rightarrow> call_result \<times> world" where
  "call_with_retry cap jit prompt max_retries base_delay w =
     retry_loop cap jit prompt max_retries base_delay 0 w"

text \<open>
  A capability for exercising the wrapper: it fails with a rate-limit message on its first
  \<open>N\<close> calls and answers from then on.  \<open>world0\<close> is the outside before anything happened.
\<close>

definition flaky :: "nat \<Rightarrow> capability" where
  "flaky N n prompt = (if n < N then Failure ''429 Too Many Requests'' else Response ''ok'')"

definition world0 :: world where
  "world0 = \<lparr>calls = 0, draws = 0, sleeps = []\<rparr>"

text \<open>Two more capabilities: one that always answers, one that always fails.\<close>

definition answering :: "string \<Rightarrow> capability" where
  "answering reply n prompt = Response reply"



section \<open>Prompt templates: \<^verbatim>\<open>templates/prompts.py\<close>\<close>

text \<open>The template texts, line by line as in the source.\<close>

definition CHUNK_SUMMARIZATION_TEMPLATE :: string where
  \<open>CHUNK_SUMMARIZATION_TEMPLATE =
     ''\<newline>'' @
     ''You are processing a section of an article titled "{title}". \<newline>'' @
     ''Summarize this section while preserving all key information, facts, and insights.\<newline>'' @
     ''Keep the most important quotes and statistics intact.\<newline>'' @
     ''Maintain the tone and style of the original content.\<newline>'' @
     ''\<newline>'' @
     ''SECTION:\<newline>'' @
     ''{chunk}\<newline>'' @
     ''\<newline>'' @
     ''SUMMARIZED SECTION:\<newline>''\<close>

definition LINKEDIN_POST_TEMPLATE :: string where
  \<open>LINKEDIN_POST_TEMPLATE =
     ''\<newline>'' @
     ''Create a LinkedIn post based on this article titled "{title}".\<newline>'' @
     ''Include:\<newline>'' @
     ''1. A compelling hook that grabs attention in the first line\<newline>'' @
     ''2. Structured/numbered key insights from the article (enough detail to be understandable and compelling)\<newline>'' @
     ''3. A thought-provoking question or call-to-action at the end\<newline>'' @
     ''4. 1-5 relevant hashtags\<newline>'' @
     ''\<newline>'' @
     ''Format with appropriate line breaks and emojis where relevant.\<newline>'' @
     ''Keep under 3,000 characters and make it feel professional but conversational.\<newline>'' @
     ''\<newline>'' @
     ''ARTICLE CONTENT:\<newline>'' @
     ''{content}\<newline>'' @
     ''\<newline>'' @
     ''LINKEDIN POST:\<newline>''\<close>

definition TWITTER_THREAD_TEMPLATE :: string where
  \<open>TWITTER_THREAD_TEMPLATE =
     ''\<newline>'' @
     ''Create a Twitter thread (generally between 5-7 tweets) based on this article titled "{title}".\<newline>'' @
     ''First tweet should have a powerful hook that makes people want to read the thread.\<newline>'' @
     ''Each subsequent tweet should cover a key point with engaging language.\<newline>'' @
     ''Final tweet should include a thought-provoking question or call-to-action.\<newline>'' @
     ''Include 2-5 relevant hashtags in the final tweet.\<newline>'' @
     ''Each tweet should be concise but still have enough information to be compelling, maintain the balance.\<newline>'' @
     ''Number each tweet (1/7, 2/7, etc.) to make it clear it's a thread.\<newline>'' @
     ''\<newline>'' @
     ''ARTICLE CONTENT:\<newline>'' @
     ''{content}\<newline>'' @
     ''\<newline>'' @
     ''TWITTER THREAD:\<newline>''\<close>

definition EMAIL_NEWSLETTER_TEMPLATE :: string where
  \<open>EMAIL_NEWSLETTER_TEMPLATE =
     ''\<newline>'' @
     ''Create an email newsletter based on this article titled "{title}".\<newline>'' @
     ''Include:\<newline>'' @
     ''1. An engaging subject line (marked with "SUBJECT:")\<newline>'' @
     ''2. A personal-feeling introduction that hooks the reader\<newline>'' @
     ''3. 3-5 key insights (can be more depending on the content) from the article with brief explanations\<newline>'' @
     ''4. Bullet points for easy scanning\<newline>'' @
     ''5. A practical takeaway or application for the reader\<newline>'' @
     ''6. A clear call-to-action\<newline>'' @
     ''\<newline>'' @
     ''Format it professionally with appropriate sections and make it conversational.\<newline>'' @
     ''Use subheadings where appropriate.\<newline>'' @
     ''\<newline>'' @
     ''ARTICLE CONTENT:\<newline>'' @
     ''{content}\<newline>'' @
     ''\<newline>'' @
     ''EMAIL NEWSLETTER:\<newline>''\<close>

definition THOUGHT_LEADERSHIP_TEMPLATE :: string where
  \<open>THOUGHT_LEADERSHIP_TEMPLATE =
     ''\<newline>'' @
     ''Create 3 thought leadership comments that could be used on social media or forums\<newline>'' @
     ''based on this article titled "{title}".\<newline>'' @
     ''\<newline>'' @
     ''Each comment should:\<newline>'' @
     ''1. Show expertise and unique insight\<newline>'' @
     ''2. Reference the article content but add new perspective or extend the ideas\<newline>'' @
     ''3. Be 2-3 paragraphs long\<newline>'' @
     ''4. End with an open-ended question to encourage discussion\<newline>'' @
     ''5. Be written in a professional but conversational tone\<newline>'' @
     ''\<newline>'' @
     ''Label each comment as "COMMENT 1:", "COMMENT 2:", and "COMMENT 3:"\<newline>'' @
     ''\<newline>'' @
     ''ARTICLE CONTENT:\<newline>'' @
     ''{content}\<newline>'' @
     ''\<newline>'' @
     ''THOUGHT LEADERSHIP COMMENTS:\<newline>''\<close>

definition TEMPLATES :: "(string \<times> string) list" where
  "TEMPLATES =
     [(''chunk_summarization'', CHUNK_SUMMARIZATION_TEMPLATE),
      (''linkedin'', LINKEDIN_POST_TEMPLATE),
      (''twitter'', TWITTER_THREAD_TEMPLATE),
      (''email'', EMAIL_NEWSLETTER_TEMPLATE),
      (''thought_leadership'', THOUGHT_LEADERSHIP_TEMPLATE)]"

text \<open>\<^verbatim>\<open>get_template\<close>: \<^verbatim>\<open>TEMPLATES.get(template_type, "")\<close>\<close>

definition get_template :: "string \<Rightarrow> string" where
  "get_template template_type =
     (case map_of TEMPLATES template_type of Some t \<Rightarrow> t | None \<Rightarrow> [])"

section \<open>String operations of Python used by \<^verbatim>\<open>src/gemini_handler.py\<close>\<close>

text \<open>
  \<^verbatim>\<open>s.split(sep)\<close> for a separator that is not empty (the only separator in the source is
  a literal): the pieces between the occurrences of \<open>sep\<close>, found from the left without
  overlap; \<open>acc\<close> holds the piece being read, reversed.
\<close>

function split_on :: "string \<Rightarrow> string \<Rightarrow> string \<Rightarrow> string list" where
  "split_on sep acc [] = [rev acc]"
| "split_on sep acc (c # cs) =
     (if sep \<noteq> [] \<and> prefix sep (c # cs)
      then rev acc # split_on sep [] (drop (length sep) (c # cs))
      else split_on sep (c # acc) cs)"
  by pat_completeness auto
termination
  by (relation "measure (\<lambda>(sep, acc, s). length s)") (auto simp: neq_Nil_conv)

definition str_split :: "string \<Rightarrow> string \<Rightarrow> string list" where
  "str_split s sep = split_on sep [] s"

text \<open>
  \<^verbatim>\<open>template.format(**kw)\<close> with keyword arguments that are strings.  The result is
  \<open>None\<close> when Python raises (\<^verbatim>\<open>ValueError\<close> for a single brace, \<^verbatim>\<open>KeyError\<close> or
  \<^verbatim>\<open>IndexError\<close> for a field that names no keyword argument).  Literal text is copied,
  \<^verbatim>\<open>{{\<close> and \<^verbatim>\<open>}}\<close> give one brace, and a field \<^verbatim>\<open>{name}\<close> gives the argument of that name.

  A field whose name is followed by a conversion (\<^verbatim>\<open>!\<close>), a format specification
  (\<^verbatim>\<open>:\<close>), an attribute (\<^verbatim>\<open>.\<close>) or an index (\<^verbatim>\<open>[\<close>) raises when the name before that
  character is no keyword argument.  Otherwise Python renders it with machinery that is
  outside this model and is a parameter: \<open>special kw name rest\<close>, for the field name read
  so far and the text from the special character on, is \<open>None\<close> when the field raises, and
  \<open>Some (v, n)\<close> when it renders as \<open>v\<close> and its closing brace is the character of index
  \<open>n\<close> behind the special character.
\<close>

type_synonym field_renderer =
  "(string \<times> string) list \<Rightarrow> string \<Rightarrow> string \<Rightarrow> (string \<times> nat) option"

definition special_char :: "char \<Rightarrow> bool" where
  "special_char c \<longleftrightarrow> c \<in> set [CHR ''!'', CHR '':'', CHR ''.'', CHR ''['']"

function format_literal :: "field_renderer \<Rightarrow> (string \<times> string) list \<Rightarrow> string \<Rightarrow> string option"
  and format_field ::
    "field_renderer \<Rightarrow> (string \<times> string) list \<Rightarrow> string \<Rightarrow> string \<Rightarrow> string option" where
  "format_literal special kw [] = Some []"
| "format_literal special kw (c # cs) =
     (if c = CHR ''{'' then
        (case cs of
           [] \<Rightarrow> None
         | d # ds \<Rightarrow>
             if d = CHR ''{'' then map_option ((#) CHR ''{'') (format_literal special kw ds)
             else format_field special kw [] cs)
      else if c = CHR ''}'' then
        (case cs of
           [] \<Rightarrow> None
         | d # ds \<Rightarrow>
             if d = CHR ''}'' then map_option ((#) CHR ''}'') (format_literal special kw ds)
             else None)
      else map_option ((#) c) (format_literal special kw cs))"
| "format_field special kw acc [] = None"
| "format_field special kw acc (c # cs) =
     (if c = CHR ''}'' then
        (case map_of kw (rev acc) of
           None \<Rightarrow> None
         | Some v \<Rightarrow> map_option ((@) v) (format_literal special kw cs))
      else if c = CHR ''{'' then None
      else if special_char c then
        (case map_of kw (rev acc) of
           None \<Rightarrow> None
         | Some _ \<Rightarrow>
             (case special kw (rev acc) (c # cs) of
                None \<Rightarrow> None
              | Some (v, n) \<Rightarrow> map_option ((@) v) (format_literal special kw (drop (Suc n) cs))))
      else format_field special kw (c # acc) cs)"
  by pat_completeness auto
termination
  by (relation "measure (\<lambda>x. case x of Inl (sp, kw, s) \<Rightarrow> length s
                                   | Inr (sp, kw, acc, s) \<Rightarrow> length s)") auto

definition str_format :: "field_renderer \<Rightarrow> string \<Rightarrow> (string \<times> string) list \<Rightarrow> string option" where
  "str_format special template kw = format_literal special kw template"

section \<open>Summaries and artifacts: \<^verbatim>\<open>src/gemini_handler.py\<close>\<close>

text \<open>
  What a \<^verbatim>\<open>GeminiHandler\<close> depends on from outside: the generation capability, the random
  jitter, and the rendering of special replacement fields.
\<close>

record env =
  generate :: capability
  uniform :: jitter
  special_field :: field_renderer

text \<open>The f-strings that serve as fallback prompts, line by line as in the source.\<close>

definition fallback_chunk_prompt :: "string \<Rightarrow> string \<Rightarrow> string" where
  \<open>fallback_chunk_prompt original_title chunk =
     ''\<newline>'' @
     ''            Summarize the following chunk of content from an article titled "'' @
     original_title @
     ''".\<newline>'' @
     ''            Preserve key information, quotes, statistics, and unique insights.\<newline>'' @
     ''            Maintain the original tone and style.\<newline>'' @
     ''            \<newline>'' @
     ''            CHUNK:\<newline>'' @
     ''            '' @
     chunk @
     ''\<newline>'' @
     ''            \<newline>'' @
     ''            SUMMARY:\<newline>'' @
     ''            ''\<close>

definition fallback_linkedin :: "string \<Rightarrow> string \<Rightarrow> string \<Rightarrow> string" where
  \<open>fallback_linkedin original_title condensed_content custom_instruction =
     ''\<newline>'' @
     ''            Create a LinkedIn post based on this article titled "'' @
     original_title @
     ''".\<newline>'' @
     ''            Include a compelling hook, 3-4 key insights, and a thought-provoking question or call-to-action.\<newline>'' @
     ''            Format with appropriate line breaks and emojis where relevant.\<newline>'' @
     ''            Keep under 3,000 characters and make it feel professional but conversational.\<newline>'' @
     ''            \<newline>'' @
     ''            '' @
     (if custom_instruction \<noteq> [] then ''!IMPORTANT INSTRUCTIONS (if above instructions are conflicting, prioritize these): '' @ custom_instruction else []) @
     ''\<newline>'' @
     ''            \<newline>'' @
     ''            ARTICLE CONTENT:\<newline>'' @
     ''            '' @
     condensed_content @
     ''\<newline>'' @
     ''            \<newline>'' @
     ''            LINKEDIN POST:\<newline>'' @
     ''            ''\<close>

definition fallback_twitter :: "string \<Rightarrow> string \<Rightarrow> string \<Rightarrow> string" where
  \<open>fallback_twitter original_title condensed_content custom_instruction =
     ''\<newline>'' @
     ''            Create a Twitter thread (5-7 tweets) based on this article titled "'' @
     original_title @
     ''".\<newline>'' @
     ''            First tweet should have a powerful hook.\<newline>'' @
     ''            Each subsequent tweet should cover a key point with engaging language.\<newline>'' @
     ''            Final tweet should include a thought-provoking question or call-to-action.\<newline>'' @
     ''            Include relevant hashtags in the final tweet.\<newline>'' @
     ''            Each tweet should be under 280 characters.\<newline>'' @
     ''            \<newline>'' @
     ''            '' @
     (if custom_instruction \<noteq> [] then ''!IMPORTANT INSTRUCTIONS (if above instructions are conflicting, prioritize these): '' @ custom_instruction else []) @
     ''\<newline>'' @
     ''            \<newline>'' @
     ''            ARTICLE CONTENT:\<newline>'' @
     ''            '' @
     condensed_content @
     ''\<newline>'' @
     ''            \<newline>'' @
     ''            TWITTER THREAD:\<newline>'' @
     ''            ''\<close>

definition fallback_email :: "string \<Rightarrow> string \<Rightarrow> string \<Rightarrow> string" where
  \<open>fallback_email original_title condensed_content custom_instruction =
     ''\<newline>'' @
     ''            Create an email newsletter based on this article titled "'' @
     original_title @
     ''".\<newline>'' @
     ''            Include:\<newline>'' @
     ''            1. An engaging subject line\<newline>'' @
     ''            2. A personal-feeling introduction\<newline>'' @
     ''            3. 3-5 key insights from the article with brief explanations\<newline>'' @
     ''            4. A practical takeaway or application for the reader\<newline>'' @
     ''            5. A call-to-action\<newline>'' @
     ''            \<newline>'' @
     ''            Format it professionally with appropriate sections and make it conversational.\<newline>'' @
     ''            \<newline>'' @
     ''            '' @
     (if custom_instruction \<noteq> [] then ''!IMPORTANT INSTRUCTIONS (if above instructions are conflicting, prioritize these): '' @ custom_instruction else []) @
     ''\<newline>'' @
     ''            \<newline>'' @
     ''            ARTICLE CONTENT:\<newline>'' @
     ''            '' @
     condensed_content @
     ''\<newline>'' @
     ''            \<newline>'' @
     ''            EMAIL NEWSLETTER:\<newline>'' @
     ''            ''\<close>

definition fallback_thought_leadership :: "string \<Rightarrow> string \<Rightarrow> string \<Rightarrow> string" where
  \<open>fallback_thought_leadership original_title condensed_content custom_instruction =
     ''\<newline>'' @
     ''            Create 3 thought leadership comments that could be used on social media or forums\<newline>'' @
     ''            based on this article titled "'' @
     original_title @
     ''".\<newline>'' @
     ''            \<newline>'' @
     ''            Each comment should:\<newline>'' @
     ''            1. Show expertise and unique insight\<newline>'' @
     ''            2. Reference the article content but add new perspective\<newline>'' @
     ''            3. Be 2-3 paragraphs long\<newline>'' @
     ''            4. End with an open-ended question to encourage discussion\<newline>'' @
     ''            \<newline>'' @
     ''            '' @
     (if custom_instruction \<noteq> [] then ''!IMPORTANT INSTRUCTIONS (if above instructions are conflicting, prioritize these): '' @ custom_instruction else []) @
     ''\<newline>'' @
     ''            \<newline>'' @
     ''            ARTICLE CONTENT:\<newline>'' @
     ''            '' @
     condensed_content @
     ''\<newline>'' @
     ''            \<newline>'' @
     ''            THOUGHT LEADERSHIP COMMENTS:\<newline>'' @
     ''            ''\<close>

definition fallback_prompts :: "string \<Rightarrow> string \<Rightarrow> string \<Rightarrow> (string \<times> string) list" where
  "fallback_prompts original_title condensed_content custom_instruction =
     [(''linkedin'', fallback_linkedin original_title condensed_content custom_instruction),
      (''twitter'', fallback_twitter original_title condensed_content custom_instruction),
      (''email'', fallback_email original_title condensed_content custom_instruction),
      (''thought_leadership'',
         fallback_thought_leadership original_title condensed_content custom_instruction)]"

text \<open>
  \<^verbatim>\<open>GeminiHandler.chunk_summarize\<close>.  The callers of \<^verbatim>\<open>_call_with_retry\<close> pass the
  prompt only, so \<^verbatim>\<open>max_retries = 5\<close> and \<^verbatim>\<open>base_delay = 2\<close>.  With these the wrapper
  never ends without a value (\<open>ReturnedNone\<close>, see \<open>retry_loop_not_none\<close> below); that
  branch is dead and is given the empty text.
\<close>

definition chunk_prompt :: "env \<Rightarrow> string \<Rightarrow> string \<Rightarrow> string" where
  "chunk_prompt e chunk original_title =
     (case str_format (special_field e) (get_template ''chunk_summarization'')
             [(''title'', original_title), (''chunk'', chunk)] of
        Some prompt \<Rightarrow> prompt
      | None \<Rightarrow> fallback_chunk_prompt original_title chunk)"

definition chunk_summarize :: "env \<Rightarrow> string \<Rightarrow> string \<Rightarrow> world \<Rightarrow> string \<times> world" where
  "chunk_summarize e chunk original_title w =
     (case call_with_retry (generate e) (uniform e) (chunk_prompt e chunk original_title) 5 2 w of
        (Returned summary, w') \<Rightarrow> (summary, w')
      | (Raised msg, w') \<Rightarrow> (chunk, w')
      | (ReturnedNone, w') \<Rightarrow> ([], w'))"

text \<open>
  \<^verbatim>\<open>GeminiHandler.create_repurposed_content\<close>, first \<^verbatim>\<open>try\<close> block: the prompt that is
  built (\<open>Inr\<close>), or the text returned at once for a content type without fallback when
  the block raises (\<open>Inl\<close>).
\<close>

definition IMPORTANT :: string where
  "IMPORTANT = ''!IMPORTANT INSTRUCTIONS (if above instructions are conflicting, prioritize these): ''"

definition add_custom_instruction :: "string \<Rightarrow> string \<Rightarrow> string" where
  "add_custom_instruction template custom_instruction =
     (if custom_instruction \<noteq> [] then
        (let template_parts = str_split template ''ARTICLE CONTENT:'' in
         if length template_parts > 1
         then template_parts ! 0 @ [newline] @ IMPORTANT @ custom_instruction
                @ [newline, newline] @ ''ARTICLE CONTENT:'' @ template_parts ! 1
         else template @ [newline, newline] @ custom_instruction)
      else template)"

definition build_prompt :: "env \<Rightarrow> string \<Rightarrow> string \<Rightarrow> string \<Rightarrow> string \<Rightarrow> string + string" where
  "build_prompt e content_type condensed_content original_title custom_instruction =
     (let fallback = map_of (fallback_prompts original_title condensed_content custom_instruction);
          template = add_custom_instruction (get_template content_type) custom_instruction
      in case str_format (special_field e) template
                [(''title'', original_title), (''content'', condensed_content)] of
           Some prompt \<Rightarrow>
             (case fallback content_type of
                Some fb \<Rightarrow> if prompt = [] then Inr fb else Inr prompt
              | None \<Rightarrow> Inr prompt)
         | None \<Rightarrow>
             (case fallback content_type of
                Some fb \<Rightarrow> Inr fb
              | None \<Rightarrow> Inl (''Invalid content type: '' @ content_type)))"

definition create_repurposed_content ::
  "env \<Rightarrow> string \<Rightarrow> string \<Rightarrow> string \<Rightarrow> string \<Rightarrow> world \<Rightarrow> string \<times> world" where
  "create_repurposed_content e content_type condensed_content original_title custom_instruction w =
     (case build_prompt e content_type condensed_content original_title custom_instruction of
        Inl invalid \<Rightarrow> (invalid, w)
      | Inr prompt \<Rightarrow>
          (case call_with_retry (generate e) (uniform e) prompt 5 2 w of
             (Returned artifact, w') \<Rightarrow> (artifact, w')
           | (Raised msg, w') \<Rightarrow>
               (''Error generating '' @ content_type @ '' content. Please try again later.'', w')
           | (ReturnedNone, w') \<Rightarrow> ([], w')))"

text \<open>
  The LinkedIn template read in pieces: the text in front of the title field, the text
  between that field and the block \<^verbatim>\<open>ARTICLE CONTENT:\<close>, and the text behind the content
  field.  \<open>linkedin_prompt_with_directive\<close> is the prompt expected for a custom
  instruction: the template with title and content filled in, and the instruction,
  introduced by \<^const>\<open>IMPORTANT\<close>, in front of the block \<^verbatim>\<open>ARTICLE CONTENT:\<close>.
\<close>

definition linkedin_intro :: string where
  \<open>linkedin_intro =
     ''\<newline>'' @
     ''Create a LinkedIn post based on this article titled "''\<close>

definition linkedin_guidance :: string where
  \<open>linkedin_guidance =
     ''".\<newline>'' @
     ''Include:\<newline>'' @
     ''1. A compelling hook that grabs attention in the first line\<newline>'' @
     ''2. Structured/numbered key insights from the article (enough detail to be understandable and compelling)\<newline>'' @
     ''3. A thought-provoking question or call-to-action at the end\<newline>'' @
     ''4. 1-5 relevant hashtags\<newline>'' @
     ''\<newline>'' @
     ''Format with appropriate line breaks and emojis where relevant.\<newline>'' @
     ''Keep under 3,000 characters and make it feel professional but conversational.\<newline>'' @
     ''\<newline>''\<close>

definition linkedin_closing :: string where
  \<open>linkedin_closing =
     ''\<newline>'' @
     ''\<newline>'' @
     ''LINKEDIN POST:\<newline>''\<close>

definition linkedin_prompt_with_directive :: "string \<Rightarrow> string \<Rightarrow> string \<Rightarrow> string" where
  "linkedin_prompt_with_directive original_title condensed_content instruction =
     linkedin_intro @ original_title @ linkedin_guidance @
     [newline] @ IMPORTANT @ instruction @ [newline, newline] @
     ''ARTICLE CONTENT:'' @ [newline] @ condensed_content @ linkedin_closing"

text \<open>A text without braces: \<^verbatim>\<open>format\<close> copies it as it is.\<close>

definition brace_free :: "string \<Rightarrow> bool" where
  "brace_free s \<longleftrightarrow> CHR ''{'' \<notin> set s \<and> CHR ''}'' \<notin> set s"

section \<open>The extractor: \<^verbatim>\<open>src/content_fetcher.py\<close>\<close>

text \<open>
  The libraries that reach the network or parse HTML (trafilatura, requests, cloudscraper,
  BeautifulSoup, \<^verbatim>\<open>urllib.parse\<close>, fake_useragent) are parameters.  Each call returns a
  value or raises; of an exception only its class matters to the handlers of the source:
  \<^verbatim>\<open>except RequestException\<close> catches the first kind of \<^typ>\<open>exn\<close> only,
  \<^verbatim>\<open>except Exception\<close> every kind.
\<close>

record fetch_result =
  fr_title :: string
  fr_content :: string

text \<open>
  \<^item> \<open>traf_fetch_url url\<close>: \<^verbatim>\<open>trafilatura.fetch_url(url)\<close>, the download or \<^verbatim>\<open>None\<close>;
  \<^item> \<open>traf_extract html\<close>: \<^verbatim>\<open>trafilatura.extract(html, ...)\<close>, the text or \<^verbatim>\<open>None\<close>;
  \<^item> \<open>page_title html\<close>: \<^verbatim>\<open>soup.title.string if soup.title else ""\<close> for
    \<^verbatim>\<open>soup = BeautifulSoup(html, 'html.parser')\<close>; \<open>None\<close> when the title tag has no
    single string;
  \<^item> \<open>select_text html sel\<close>: \<open>None\<close> when \<^verbatim>\<open>soup.select(sel)\<close> is empty, otherwise the
    text of its first element once the unwanted descendants are removed;
  \<^item> \<open>densest_text html\<close>: \<open>None\<close> when the cleaned document has no paragraph tag,
    otherwise the text of the parent that holds most of them;
  \<^item> \<open>body_text html\<close>: the text of \<^verbatim>\<open>soup.body\<close>, empty when there is no body;
  \<^item> \<open>make_headers url attempt\<close>: the exception, if any, that \<^verbatim>\<open>get_random_headers(url)\<close>
    raises (it picks a user agent and calls \<^verbatim>\<open>urlparse(url)\<close>);
  \<^item> \<open>requests_get url attempt\<close>: \<^verbatim>\<open>requests.get(url, ...)\<close>, status code and text;
  \<^item> \<open>scraper_get url\<close>: the same through \<^verbatim>\<open>cloudscraper\<close>.
\<close>

record fetch_env =
  traf_fetch_url :: "string \<Rightarrow> exn + string option"
  traf_extract :: "string \<Rightarrow> exn + string option"
  page_title :: "string \<Rightarrow> exn + string option"
  select_text :: "string \<Rightarrow> string \<Rightarrow> exn + string option"
  densest_text :: "string \<Rightarrow> exn + string option"
  body_text :: "string \<Rightarrow> exn + string"
  make_headers :: "string \<Rightarrow> nat \<Rightarrow> exn option"
  requests_get :: "string \<Rightarrow> nat \<Rightarrow> exn + nat \<times> string"
  scraper_get :: "string \<Rightarrow> exn + nat \<times> string"

definition empty_result :: fetch_result where
  "empty_result = \<lparr>fr_title = [], fr_content = []\<rparr>"

text \<open>\<^verbatim>\<open>title.strip()\<close>: an \<^verbatim>\<open>AttributeError\<close> when the title string is \<^verbatim>\<open>None\<close>.\<close>

definition stripped_title :: "fetch_env \<Rightarrow> string \<Rightarrow> exn + string" where
  "stripped_title fe html =
     (case page_title fe html of
        Inl e \<Rightarrow> Inl e
      | Inr None \<Rightarrow> Inl OtherException
      | Inr (Some s) \<Rightarrow> Inr (strip s))"

text \<open>
  The \<^verbatim>\<open>try\<close> block around trafilatura, the same in \<^verbatim>\<open>fetch_content\<close> and in
  \<^verbatim>\<open>extract_content_from_html\<close>: \<open>Some\<close> when it returns, \<open>None\<close> when the extraction is
  empty or anything raises (\<^verbatim>\<open>except Exception\<close>).
\<close>

definition trafilatura_result :: "fetch_env \<Rightarrow> string \<Rightarrow> fetch_result option" where
  "trafilatura_result fe html =
     (case traf_extract fe html of
        Inl e \<Rightarrow> None
      | Inr None \<Rightarrow> None
      | Inr (Some result) \<Rightarrow>
          if result \<noteq> [] then
            (case stripped_title fe html of
               Inl e \<Rightarrow> None
             | Inr t \<Rightarrow> Some \<lparr>fr_title = t, fr_content = strip result\<rparr>)
          else None)"

text \<open>The selectors of the content containers, in the order of the source.\<close>

definition containers :: "string list" where
  \<open>containers =
     [''article'', ''main'', ''.content'', ''#content'', ''.post'', ''.entry'', ''.article'',
      ''.blog-post'', ''[itemprop="articleBody"]'', ''[itemprop="mainEntityOfPage"]'']\<close>

text \<open>The loop over the containers, with the content found so far.\<close>

fun container_loop :: "fetch_env \<Rightarrow> string \<Rightarrow> string list \<Rightarrow> string \<Rightarrow> exn + string" where
  "container_loop fe html [] content = Inr content"
| "container_loop fe html (container # rest) content =
     (if content \<noteq> [] then Inr content
      else (case select_text fe html container of
              Inl e \<Rightarrow> Inl e
            | Inr None \<Rightarrow> container_loop fe html rest content
            | Inr (Some t) \<Rightarrow> container_loop fe html rest t))"

text \<open>The text found by the second method, or the exception that ends it.\<close>

definition soup_content :: "fetch_env \<Rightarrow> string \<Rightarrow> exn + string" where
  "soup_content fe html =
     (case container_loop fe html containers [] of
        Inl e \<Rightarrow> Inl e
      | Inr content \<Rightarrow>
          if content = [] then
            (case densest_text fe html of
               Inl e \<Rightarrow> Inl e
             | Inr (Some t) \<Rightarrow> Inr t
             | Inr None \<Rightarrow> body_text fe html)
          else Inr content)"

text \<open>
  The second \<^verbatim>\<open>try\<close> block of \<^verbatim>\<open>extract_content_from_html\<close>: the title is read first,
  then the content, and both are stripped at the end; any exception gives the empty result.
\<close>

definition soup_result :: "fetch_env \<Rightarrow> string \<Rightarrow> fetch_result" where
  "soup_result fe html =
     (case page_title fe html of
        Inl e \<Rightarrow> empty_result
      | Inr t \<Rightarrow>
          (case soup_content fe html of
             Inl e \<Rightarrow> empty_result
           | Inr content \<Rightarrow>
               (case stripped_title fe html of
                  Inl e \<Rightarrow> empty_result
                | Inr stripped \<Rightarrow> \<lparr>fr_title = stripped, fr_content = strip content\<rparr>)))"

text \<open>\<^verbatim>\<open>ContentFetcher.extract_content_from_html\<close>\<close>

definition extract_content_from_html :: "fetch_env \<Rightarrow> string \<Rightarrow> fetch_result" where
  "extract_content_from_html fe html_content =
     (if html_content = [] then empty_result
      else (case trafilatura_result fe html_content of
              Some r \<Rightarrow> r
            | None \<Rightarrow> soup_result fe html_content))"

text \<open>
  \<^verbatim>\<open>ContentFetcher.fetch_with_regular_requests\<close>: the loop over the attempts.  Its handler
  is \<^verbatim>\<open>except RequestException\<close>, so an exception of another class leaves the function.
  The pauses between the attempts and the printing of the response are left out.
\<close>

fun regular_attempts :: "fetch_env \<Rightarrow> string \<Rightarrow> nat list \<Rightarrow> exn + string option" where
  "regular_attempts fe url [] = Inr None"
| "regular_attempts fe url (attempt # rest) =
     (case make_headers fe url attempt of
        Some e \<Rightarrow> if e = RequestException then regular_attempts fe url rest else Inl e
      | None \<Rightarrow>
          (case requests_get fe url attempt of
             Inl e \<Rightarrow> if e = RequestException then regular_attempts fe url rest else Inl e
           | Inr (status_code, body) \<Rightarrow>
               if status_code = 200 then Inr (Some body)
               else regular_attempts fe url rest))"

definition fetch_with_regular_requests :: "fetch_env \<Rightarrow> string \<Rightarrow> exn + string option" where
  "fetch_with_regular_requests fe url = regular_attempts fe url [0..<3]"

text \<open>\<^verbatim>\<open>ContentFetcher.fetch_with_cloudscraper\<close>: its handler is \<^verbatim>\<open>except Exception\<close>.\<close>

definition fetch_with_cloudscraper :: "fetch_env \<Rightarrow> string \<Rightarrow> string option" where
  "fetch_with_cloudscraper fe url =
     (case scraper_get fe url of
        Inl e \<Rightarrow> None
      | Inr (status_code, body) \<Rightarrow> if status_code = 200 then Some body else None)"

text \<open>
  The three methods of \<^verbatim>\<open>fetch_content\<close>.  The first and the third cannot raise; the
  second can, since nothing in \<^verbatim>\<open>fetch_content\<close> encloses the call of
  \<^verbatim>\<open>fetch_with_regular_requests\<close>.  \<open>None\<close> means that the method gave no result and the
  next one is tried.
\<close>

definition direct_method :: "fetch_env \<Rightarrow> string \<Rightarrow> fetch_result option" where
  "direct_method fe url =
     (case traf_fetch_url fe url of
        Inl e \<Rightarrow> None
      | Inr None \<Rightarrow> None
      | Inr (Some downloaded) \<Rightarrow>
          if downloaded \<noteq> [] then trafilatura_result fe downloaded else None)"

definition html_method :: "fetch_env \<Rightarrow> string option \<Rightarrow> fetch_result option" where
  "html_method fe html_content =
     (case html_content of
        None \<Rightarrow> None
      | Some html \<Rightarrow>
          if html \<noteq> [] then
            (let result = extract_content_from_html fe html
             in if fr_content result \<noteq> [] then Some result else None)
          else None)"

text \<open>\<^verbatim>\<open>ContentFetcher.fetch_content\<close>\<close>

definition fetch_content :: "fetch_env \<Rightarrow> string \<Rightarrow> exn + fetch_result" where
  "fetch_content fe url =
     (case direct_method fe url of
        Some r \<Rightarrow> Inr r
      | None \<Rightarrow>
          (case fetch_with_regular_requests fe url of
             Inl e \<Rightarrow> Inl e
           | Inr html_content \<Rightarrow>
               (case html_method fe html_content of
                  Some r \<Rightarrow> Inr r
                | None \<Rightarrow>
                    (case html_method fe (fetch_with_cloudscraper fe url) of
                       Some r \<Rightarrow> Inr r
                     | None \<Rightarrow> Inr empty_result))))"

text \<open>
  An environment for a URL that cannot be fetched: no download, every request fails with
  a \<^verbatim>\<open>RequestException\<close>, and \<^verbatim>\<open>urlparse\<close> raises \<^verbatim>\<open>ValueError("Invalid IPv6 URL")\<close> for a
  URL with an opening bracket that is never closed, as for \<^verbatim>\<open>http://[\<close>.
\<close>

definition unreachable_env :: fetch_env where
  "unreachable_env =
     \<lparr>traf_fetch_url = (\<lambda>url. Inr None),
      traf_extract = (\<lambda>html. Inr None),
      page_title = (\<lambda>html. Inr (Some [])),
      select_text = (\<lambda>html sel. Inr None),
      densest_text = (\<lambda>html. Inr None),
      body_text = (\<lambda>html. Inr []),
      make_headers = (\<lambda>url attempt.
         if CHR ''['' \<in> set url \<and> CHR '']'' \<notin> set url then Some OtherException else None),
      requests_get = (\<lambda>url attempt. Inl RequestException),
      scraper_get = (\<lambda>url. Inl RequestException)\<rparr>"

section \<open>The orchestrator: \<^verbatim>\<open>src/repurposer.py\<close>\<close>

text \<open>
  The loop that summarizes the chunks: one call of \<^verbatim>\<open>chunk_summarize\<close> per chunk, and a
  sleep of \<^verbatim>\<open>delay_between_calls\<close> seconds behind every chunk but the last.  Nothing
  encloses that sleep, so an exception of \<^verbatim>\<open>time.sleep\<close> ends the loop and the method.
\<close>

fun summarize_loop ::
  "env \<Rightarrow> string \<Rightarrow> real \<Rightarrow> string list \<Rightarrow> string list \<times> world \<Rightarrow> (exn + string list) \<times> world" where
  "summarize_loop e original_title delay [] (summarized_chunks, w) = (Inr summarized_chunks, w)"
| "summarize_loop e original_title delay (chunk # rest) (summarized_chunks, w) =
     (case chunk_summarize e chunk original_title w of
        (summary, w') \<Rightarrow>
          if rest \<noteq> [] then
            (case time_sleep delay w' of
               Inl ex \<Rightarrow> (Inl ex, w')
             | Inr w'' \<Rightarrow>
                 summarize_loop e original_title delay rest (summarized_chunks @ [summary], w''))
          else summarize_loop e original_title delay rest (summarized_chunks @ [summary], w'))"

text \<open>Steps 3 and 4 of \<^verbatim>\<open>repurpose\<close>: the condensed document.\<close>

definition condense ::
  "env \<Rightarrow> string list \<Rightarrow> string \<Rightarrow> real \<Rightarrow> world \<Rightarrow> (exn + string) \<times> world" where
  "condense e chunks original_title delay w =
     (case summarize_loop e original_title delay chunks ([], w) of
        (Inl ex, w') \<Rightarrow> (Inl ex, w')
      | (Inr summarized_chunks, w') \<Rightarrow> (Inr (summarize_chunks chunks summarized_chunks), w'))"

text \<open>
  \<^verbatim>\<open>custom_instructions.get(content_type, "")\<close>, where \<^verbatim>\<open>None\<close> for the dictionary stands
  for the empty one.
\<close>

definition instruction_for :: "(string \<rightharpoonup> string) option \<Rightarrow> string \<Rightarrow> string" where
  "instruction_for custom_instructions content_type =
     (case custom_instructions of
        None \<Rightarrow> []
      | Some d \<Rightarrow> (case d content_type of None \<Rightarrow> [] | Some s \<Rightarrow> s))"

text \<open>
  The loop over the content types.  \<^verbatim>\<open>results\<close> is a dictionary that keeps its keys in
  the order of their first insertion: an association list under \<^const>\<open>AList.update\<close>.
  The sleep between two types is not enclosed either.
\<close>

fun generate_loop ::
  "env \<Rightarrow> string \<Rightarrow> string \<Rightarrow> real \<Rightarrow> (string \<rightharpoonup> string) option \<Rightarrow> string list \<Rightarrow>
     (string \<times> string) list \<times> world \<Rightarrow> (exn + (string \<times> string) list) \<times> world" where
  "generate_loop e condensed_content original_title delay custom_instructions [] (results, w) =
     (Inr results, w)"
| "generate_loop e condensed_content original_title delay custom_instructions
     (content_type # rest) (results, w) =
     (case create_repurposed_content e content_type condensed_content original_title
             (instruction_for custom_instructions content_type) w of
        (repurposed, w') \<Rightarrow>
          if rest \<noteq> [] then
            (case time_sleep delay w' of
               Inl ex \<Rightarrow> (Inl ex, w')
             | Inr w'' \<Rightarrow>
                 generate_loop e condensed_content original_title delay custom_instructions rest
                   (AList.update content_type repurposed results, w''))
          else generate_loop e condensed_content original_title delay custom_instructions rest
                 (AList.update content_type repurposed results, w'))"

text \<open>
  \<^verbatim>\<open>ContentRepurposer.repurpose_from_text\<close>; \<^verbatim>\<open>chunk_text\<close> is called with its default
  budget of 4000 tokens.
\<close>

definition repurpose_from_text ::
  "env \<Rightarrow> string \<Rightarrow> string \<Rightarrow> string list \<Rightarrow> real \<Rightarrow> (string \<rightharpoonup> string) option \<Rightarrow> world \<Rightarrow>
     (exn + (string \<times> string) list) \<times> world" where
  "repurpose_from_text e original_title content content_types delay custom_instructions w =
     (let chunks = chunk_text content 4000
      in case condense e chunks original_title delay w of
           (Inl ex, w') \<Rightarrow> (Inl ex, w')
         | (Inr condensed_content, w') \<Rightarrow>
             generate_loop e condensed_content original_title delay custom_instructions
               content_types ([], w'))"

text \<open>
  \<^verbatim>\<open>ContentRepurposer.repurpose\<close>: after the fetch, its statements are those of
  \<^verbatim>\<open>repurpose_from_text\<close> for the fetched title and content.  An exception that leaves
  \<^verbatim>\<open>fetch_content\<close> leaves \<^verbatim>\<open>repurpose\<close> too.
\<close>

definition repurpose ::
  "fetch_env \<Rightarrow> env \<Rightarrow> string \<Rightarrow> string list \<Rightarrow> real \<Rightarrow> (string \<rightharpoonup> string) option \<Rightarrow> world \<Rightarrow>
     (exn + (string \<times> string) list) \<times> world" where
  "repurpose fe e url content_types delay custom_instructions w =
     (case fetch_content fe url of
        Inl ex \<Rightarrow> (Inl ex, w)
      | Inr content_data \<Rightarrow>
          if fr_content content_data = []
          then (Inr [(''error'', ''Failed to fetch content from URL'')], w)
          else repurpose_from_text e (fr_title content_data) (fr_content content_data)
                 content_types delay custom_instructions w)"

text \<open>
  An environment for exercising the pipeline: the given capability, no jitter, and every
  special replacement field raising.
\<close>

definition mock_env :: "capability \<Rightarrow> env" where
  "mock_env cap = \<lparr>generate = cap, uniform = (\<lambda>n. 0), special_field = (\<lambda>kw name rest. None)\<rparr>"

section \<open>Properties of the text processor\<close>

lemma collapse_ws_no_newline: "newline \<notin> set (collapse_ws s)"
  by (induction s rule: collapse_ws.induct) (auto simp: newline_def is_space_def)

lemma normalize_breaks_id: "newline \<notin> set s \<Longrightarrow> normalize_breaks s = s"
  by (induction s) auto

lemma set_strip_subset: "set (strip s) \<subseteq> set s"
proof -
  have "set (strip s) \<subseteq> set (dropWhile is_space s)"
    unfolding strip_def using set_dropWhileD by fastforce
  also have "\<dots> \<subseteq> set s" using set_dropWhileD by fastforce
  finally show ?thesis .
qed

lemma clean_text_no_newline: "newline \<notin> set (clean_text text)"
  using set_strip_subset [of "normalize_breaks (collapse_ws text)"]
  by (auto simp: clean_text_def normalize_breaks_id collapse_ws_no_newline)

lemma split_blank_no_newline: "newline \<notin> set s \<Longrightarrow> split_blank acc s = [rev acc @ s]"
  by (induction s arbitrary: acc) auto

lemma split_paragraphs_no_newline: "newline \<notin> set s \<Longrightarrow> split_paragraphs s = [s]"
  by (simp add: split_paragraphs_def split_blank_no_newline)

lemma strip_ends:
  assumes "strip s \<noteq> []"
  shows "\<not> is_space (hd (strip s))" and "\<not> is_space (last (strip s))"
proof -
  let ?d = "dropWhile is_space s"
  let ?r = "dropWhile is_space (rev ?d)"
  from assms have r: "?r \<noteq> []" by (simp add: strip_def)
  then have "\<not> is_space (hd ?r)" by (rule hd_dropWhile)
  then show "\<not> is_space (last (strip s))" using r by (simp add: strip_def last_rev)
  from r have d: "?d \<noteq> []" by (cases "?d = []") simp_all
  then have hd: "\<not> is_space (hd ?d)" by (rule hd_dropWhile)
  obtain ys where ys: "rev ?d = ys @ ?r"
    by (metis takeWhile_dropWhile_id)
  have "hd (strip s) = last ?r" using r by (simp add: strip_def hd_rev)
  also have "\<dots> = last (rev ?d)" using ys r by (metis last_appendR)
  also have "\<dots> = hd ?d" using d by (simp add: last_rev)
  finally show "\<not> is_space (hd (strip s))" using hd by simp
qed

lemma strip_fixed:
  assumes "s = [] \<or> (\<not> is_space (hd s) \<and> \<not> is_space (last s))"
  shows "strip s = s"
proof (cases "s = []")
  case True then show ?thesis by (simp add: strip_def)
next
  case False
  with assms have h: "\<not> is_space (hd s)" and l: "\<not> is_space (last s)" by auto
  from False h have 1: "dropWhile is_space s = s" by (cases s) auto
  from False l have "\<not> is_space (hd (rev s))" by (simp add: hd_rev)
  with False have 2: "dropWhile is_space (rev s) = rev s" by (cases "rev s") auto
  show ?thesis by (simp add: strip_def 1 2)
qed

lemma strip_idem: "strip (strip s) = strip s"
  using strip_ends [of s] by (intro strip_fixed) auto

lemma strip_clean_text: "strip (clean_text text) = clean_text text"
  by (simp add: clean_text_def strip_idem)

lemma chunk_text_cases:
  "chunk_text text max_tokens = (if clean_text text = [] then [] else [clean_text text])"
  by (simp add: chunk_text_def split_paragraphs_no_newline clean_text_no_newline strip_clean_text)

text \<open>
  Claim C1, evaluated at the text \<^verbatim>\<open>"aaaa\n\nbbbb"\<close> with \<^verbatim>\<open>max_tokens = 1\<close>: the input
  holds two paragraphs separated by a blank line, each estimated at one token, so their
  combined estimate exceeds the budget; \<^verbatim>\<open>chunk_text\<close> nevertheless returns the single
  chunk \<^verbatim>\<open>"aaaa bbbb"\<close>, whose estimate of 9/4 tokens is over the budget.
\<close>

theorem chunk_text_two_paragraphs_one_chunk:
  "chunk_text ''aaaa\<newline>\<newline>bbbb'' 1 = [''aaaa bbbb'']
   \<and> (of_nat (length ''aaaa'') / 4 + of_nat (length ''bbbb'') / 4 > (1::rat))
   \<and> (of_nat (length ''aaaa bbbb'') / 4 > (1::rat))"
  by (simp add: chunk_text_def clean_text_def strip_def is_space_def newline_def
      split_paragraphs_def after_last_newline_def)

text \<open>
  Claim C2: for every text and every budget, \<^verbatim>\<open>chunk_text\<close> returns at most one chunk:
  the empty list when the cleaned text is empty, and otherwise the list whose only element
  is the cleaned text.  The first substitution of \<^verbatim>\<open>clean_text\<close> leaves no line feed, so
  the split at blank lines yields one paragraph.
\<close>

theorem chunk_text_at_most_one_chunk:
  "chunk_text text max_tokens = (if clean_text text = [] then [] else [clean_text text])
   \<and> newline \<notin> set (clean_text text)
   \<and> split_paragraphs (clean_text text) = [clean_text text]"
  by (simp add: chunk_text_cases clean_text_no_newline split_paragraphs_no_newline)

text \<open>
  Claim C10: for every text, the chunks of \<^verbatim>\<open>chunk_text\<close>, joined in order with the
  blank-line separator, give back \<^verbatim>\<open>clean_text(text)\<close>, and so does their concatenation
  without separators: nothing is lost, repeated or reordered.
\<close>

theorem chunk_text_reconstructs_clean_text:
  "join [newline, newline] (chunk_text text max_tokens) = clean_text text
   \<and> concat (chunk_text text max_tokens) = clean_text text"
  by (simp add: chunk_text_cases)

section \<open>Properties of the retrying caller\<close>

lemma float_limit_large: "2 ^ 1023 \<le> float_limit"
proof -
  have "(2::int) ^ 1024 = 2 * 2 ^ 1023" by simp
  moreover have "(2::int) ^ 970 \<le> 2 ^ 1023" by (rule power_increasing) simp_all
  ultimately show ?thesis by (simp add: float_limit_def)
qed

lemma float_limit_gt_one: "1 < float_limit"
proof -
  have "(2::int) ^ 1 \<le> 2 ^ 1023" by (rule power_increasing) simp_all
  with float_limit_large show ?thesis by simp
qed

lemma sleep_limit_bounds: "2 \<le> sleep_limit" "sleep_limit \<le> 2 ^ 63"
  by (simp_all add: sleep_limit_def)

text \<open>A length that can be slept is far inside the floating-point range.\<close>

lemma sleepable_in_float_range:
  assumes "0 \<le> n" and "real_of_int n \<le> sleep_limit"
  shows "\<not> float_overflow n"
proof -
  from assms(2) sleep_limit_bounds(2) have "real_of_int n \<le> real_of_int (2 ^ 63)" by simp
  then have "n \<le> 2 ^ 63" by (simp only: of_int_le_iff)
  moreover have "(2::int) ^ 63 < 2 ^ 1023" by (rule power_strict_increasing) simp_all
  ultimately have "n < float_limit" using float_limit_large by simp
  with assms(1) show ?thesis by (simp add: float_overflow_def)
qed

text \<open>Below the bound for the largest exponent, no power of a base that is not negative overflows.\<close>

lemma power_in_float_range:
  assumes "0 \<le> b" and "k \<le> m" and "\<not> float_overflow (b ^ m)"
  shows "\<not> float_overflow (b ^ k)"
proof (cases "b = 0")
  case True
  then have "\<bar>b ^ k\<bar> \<le> 1" by (cases k) simp_all
  with float_limit_gt_one show ?thesis by (simp add: float_overflow_def)
next
  case False
  with assms(1) have "1 \<le> b" by simp
  with assms(2) have "b ^ k \<le> b ^ m" by (rule power_increasing)
  moreover from assms(1) have "0 \<le> b ^ k" "0 \<le> b ^ m" by simp_all
  ultimately show ?thesis using assms(3) by (simp add: float_overflow_def)
qed

text \<open>The world after \<open>n\<close> rate-limited attempts that began at retry count \<open>k\<close>.\<close>

lemma retry_loop_rate_limited:
  assumes "\<forall>i<n. \<exists>msg. cap (calls w + i) prompt = Failure msg \<and> contains ''429'' msg"
      and "int (k + n) \<le> max_retries"
      and "\<forall>i<n. \<not> float_overflow (base_delay ^ (k + i))
                 \<and> 0 \<le> delay_value base_delay (k + i) (jit (draws w + i))
                 \<and> delay_value base_delay (k + i) (jit (draws w + i)) \<le> sleep_limit"
  shows "retry_loop cap jit prompt max_retries base_delay k w =
         retry_loop cap jit prompt max_retries base_delay (k + n)
           (w\<lparr>calls := calls w + n, draws := draws w + n,
              sleeps := sleeps w @
                map (\<lambda>i. delay_value base_delay (k + i) (jit (draws w + i))) [0..<n]\<rparr>)"
  using assms
proof (induction n arbitrary: k w)
  case 0
  then show ?case by simp
next
  case (Suc n)
  let ?w1 = "w\<lparr>calls := Suc (calls w), draws := Suc (draws w),
                sleeps := sleeps w @ [delay_value base_delay k (jit (draws w))]\<rparr>"
  from Suc.prems(1) obtain msg where
    m: "cap (calls w) prompt = Failure msg" "contains ''429'' msg"
    by (metis add.right_neutral zero_less_Suc)
  from Suc.prems(2) have lt: "int k < max_retries" by simp
  from Suc.prems(3) have d0: "\<not> float_overflow (base_delay ^ k)"
      "0 \<le> delay_value base_delay k (jit (draws w))"
      "delay_value base_delay k (jit (draws w)) \<le> sleep_limit"
    by (metis add.right_neutral zero_less_Suc)+
  have step: "retry_loop cap jit prompt max_retries base_delay k w =
              retry_loop cap jit prompt max_retries base_delay (Suc k) ?w1"
    using m lt d0 by (subst retry_loop.simps) (simp add: backoff_delay_def time_sleep_def)
  have rest: "\<forall>i<n. \<exists>msg. cap (calls ?w1 + i) prompt = Failure msg \<and> contains ''429'' msg"
    using Suc.prems(1) by (auto simp: less_Suc_eq_0_disj)
  have bound: "int (Suc k + n) \<le> max_retries" using Suc.prems(2) by simp
  have range: "\<forall>i<n. \<not> float_overflow (base_delay ^ (Suc k + i))
                 \<and> 0 \<le> delay_value base_delay (Suc k + i) (jit (draws ?w1 + i))
                 \<and> delay_value base_delay (Suc k + i) (jit (draws ?w1 + i)) \<le> sleep_limit"
    using Suc.prems(3) by (auto simp: less_Suc_eq_0_disj)
  have shift: "map (\<lambda>i. delay_value base_delay (k + i) (jit (draws w + i))) [0..<Suc n] =
        delay_value base_delay k (jit (draws w)) #
        map (\<lambda>i. delay_value base_delay (Suc k + i) (jit (draws ?w1 + i))) [0..<n]"
    by (simp only: upt_conv_Cons [of 0 "Suc n"] map_Suc_upt [symmetric]) (simp add: comp_def)
  show ?case
    unfolding step Suc.IH [OF rest bound range] shift by simp
qed

lemma retry_loop_response:
  assumes "int k \<le> max_retries" and "cap (calls w) prompt = Response r"
  shows "retry_loop cap jit prompt max_retries base_delay k w =
         (Returned r, w\<lparr>calls := Suc (calls w)\<rparr>)"
  using assms by (subst retry_loop.simps) simp

lemma retry_loop_other_error:
  assumes "int k \<le> max_retries" and "cap (calls w) prompt = Failure msg"
      and "\<not> contains ''429'' msg"
  shows "retry_loop cap jit prompt max_retries base_delay k w =
         (Raised msg, w\<lparr>calls := Suc (calls w)\<rparr>)"
  using assms by (subst retry_loop.simps) simp

lemma retry_loop_exhausted:
  assumes "int k = max_retries" and "cap (calls w) prompt = Failure msg"
  shows "retry_loop cap jit prompt max_retries base_delay k w =
         (Raised msg, w\<lparr>calls := Suc (calls w)\<rparr>)"
  using assms by (subst retry_loop.simps) simp

text \<open>
  A negative \<^verbatim>\<open>max_retries\<close> is not a number of attempts: the loop body never runs, no
  call is made, and the function ends without a value.
\<close>

lemma call_with_retry_negative:
  "max_retries < 0 \<Longrightarrow> call_with_retry cap jit prompt max_retries base_delay w = (ReturnedNone, w)"
  unfolding call_with_retry_def by (subst retry_loop.simps) simp

text \<open>
  The exceptions of the handler itself: a delay that is negative or too long to be slept,
  and a power beyond the floating-point range.  They leave \<^verbatim>\<open>_call_with_retry\<close>.
\<close>

lemma retry_loop_too_long:
  assumes "int k < max_retries" and "cap (calls w) prompt = Failure msg"
      and "contains ''429'' msg" and "\<not> float_overflow (base_delay ^ k)"
      and "sleep_limit < delay_value base_delay k (jit (draws w))"
  shows "retry_loop cap jit prompt max_retries base_delay k w =
         (Raised ''timestamp out of range for platform time_t'',
          w\<lparr>calls := Suc (calls w), draws := Suc (draws w)\<rparr>)"
proof -
  from assms(5) sleep_limit_bounds(1) have "\<not> delay_value base_delay k (jit (draws w)) < 0"
    by simp
  with assms show ?thesis
    by (subst retry_loop.simps) (simp add: backoff_delay_def time_sleep_def sleep_message_def)
qed

lemma retry_loop_negative_delay:
  assumes "int k < max_retries" and "cap (calls w) prompt = Failure msg"
      and "contains ''429'' msg" and "\<not> float_overflow (base_delay ^ k)"
      and "delay_value base_delay k (jit (draws w)) < 0"
  shows "retry_loop cap jit prompt max_retries base_delay k w =
         (Raised ''sleep length must be non-negative'',
          w\<lparr>calls := Suc (calls w), draws := Suc (draws w)\<rparr>)"
  using assms
  by (subst retry_loop.simps) (simp add: backoff_delay_def time_sleep_def sleep_message_def)

lemma retry_loop_overflow:
  assumes "int k < max_retries" and "cap (calls w) prompt = Failure msg"
      and "contains ''429'' msg" and "float_overflow (base_delay ^ k)"
  shows "retry_loop cap jit prompt max_retries base_delay k w =
         (Raised ''int too large to convert to float'',
          w\<lparr>calls := Suc (calls w), draws := Suc (draws w)\<rparr>)"
  using assms by (subst retry_loop.simps) (simp add: backoff_delay_def)


text \<open>
  Claim C3: let \<^verbatim>\<open>max_retries\<close> and \<^verbatim>\<open>base_delay\<close> not be negative, the jitter lie between
  0 and 1, and the largest power \<^verbatim>\<open>base_delay ** max_retries\<close> plus one be a length that
  \<^verbatim>\<open>time.sleep\<close> accepts (so that computing a delay and sleeping never raise), and let the capability
  fail with a rate-limit message (one containing \<^verbatim>\<open>429\<close>) on the first \<open>N\<close> calls that
  \<^verbatim>\<open>_call_with_retry\<close> makes.  If the next call succeeds, the wrapper returns that
  response exactly when \<open>N \<le> max_retries\<close>, after \<open>N\<close> sleeps, the \<open>k\<close>-th lasting
  \<^verbatim>\<open>base_delay ** k\<close> plus the drawn jitter for \<open>k = 0, 1, \<dots>\<close>; otherwise it raises the
  rate-limit failure after \<^verbatim>\<open>max_retries\<close> sleeps.  A failure without the rate-limit signal
  is raised at once, with no further call and no further sleep.  Each delay lies between
  its least value \<^verbatim>\<open>base_delay ** k\<close> and that value plus one, and the least value grows
  strictly with \<open>k\<close> when \<^verbatim>\<open>base_delay\<close> is at least 2.
\<close>

theorem call_with_retry_contract:
  assumes "0 \<le> max_retries"
      and "0 \<le> base_delay"
      and "real_of_int (base_delay ^ nat max_retries) + 1 \<le> sleep_limit"
      and "\<forall>i. 0 \<le> jit i \<and> jit i \<le> 1"
      and "\<forall>i<N. \<exists>msg. cap (calls w + i) prompt = Failure msg \<and> contains ''429'' msg"
  shows "(cap (calls w + N) prompt = Response r \<longrightarrow>
            ((fst (call_with_retry cap jit prompt max_retries base_delay w) = Returned r)
               = (int N \<le> max_retries))
          \<and> (int N \<le> max_retries \<longrightarrow>
               call_with_retry cap jit prompt max_retries base_delay w =
                 (Returned r,
                  w\<lparr>calls := calls w + N + 1, draws := draws w + N,
                    sleeps := sleeps w @
                      map (\<lambda>k. delay_value base_delay k (jit (draws w + k))) [0..<N]\<rparr>))
          \<and> (max_retries < int N \<longrightarrow>
               (\<exists>msg. contains ''429'' msg \<and>
                  call_with_retry cap jit prompt max_retries base_delay w =
                    (Raised msg,
                     w\<lparr>calls := calls w + nat max_retries + 1, draws := draws w + nat max_retries,
                       sleeps := sleeps w @
                         map (\<lambda>k. delay_value base_delay k (jit (draws w + k)))
                           [0..<nat max_retries]\<rparr>))))
       \<and> (int N \<le> max_retries \<and> cap (calls w + N) prompt = Failure msg
            \<and> \<not> contains ''429'' msg \<longrightarrow>
            call_with_retry cap jit prompt max_retries base_delay w =
              (Raised msg,
               w\<lparr>calls := calls w + N + 1, draws := draws w + N,
                 sleeps := sleeps w @
                   map (\<lambda>k. delay_value base_delay k (jit (draws w + k))) [0..<N]\<rparr>))
       \<and> (2 \<le> base_delay \<longrightarrow>
            (\<forall>j k. j < k \<longrightarrow> delay_value base_delay j 0 < delay_value base_delay k 0))
       \<and> (\<forall>k u. 0 \<le> u \<longrightarrow> delay_value base_delay k 0 \<le> delay_value base_delay k u)
       \<and> (\<forall>k<nat max_retries. \<forall>i.
            backoff_delay base_delay k (jit i) = Some (delay_value base_delay k (jit i))
            \<and> delay_value base_delay k 0 \<le> delay_value base_delay k (jit i)
            \<and> delay_value base_delay k (jit i) \<le> delay_value base_delay k 0 + 1)"
proof -
  let ?call = "call_with_retry cap jit prompt max_retries base_delay w"
  let ?after = "\<lambda>n. w\<lparr>calls := calls w + n, draws := draws w + n,
                  sleeps := sleeps w @
                    map (\<lambda>k. delay_value base_delay k (jit (draws w + k))) [0..<n]\<rparr>"
  let ?final = "\<lambda>n. w\<lparr>calls := calls w + n + 1, draws := draws w + n,
                  sleeps := sleeps w @
                    map (\<lambda>k. delay_value base_delay k (jit (draws w + k))) [0..<n]\<rparr>"
  have top: "\<not> float_overflow (base_delay ^ nat max_retries)"
  proof (rule sleepable_in_float_range)
    from assms(2) show "0 \<le> base_delay ^ nat max_retries" by simp
    from assms(3) show "real_of_int (base_delay ^ nat max_retries) \<le> sleep_limit" by simp
  qed
  have range: "\<not> float_overflow (base_delay ^ k)" if "int k \<le> max_retries" for k
    using assms(2) _ top by (rule power_in_float_range) (use that in simp)
  have nonneg: "0 \<le> delay_value base_delay k (jit i)" for k i
  proof -
    from assms(2) have "0 \<le> base_delay ^ k" by simp
    then have "0 \<le> real_of_int (base_delay ^ k)" by (simp only: of_int_0_le_iff)
    with assms(4) show ?thesis by (simp add: delay_value_def add_nonneg_nonneg)
  qed
  have short: "delay_value base_delay k (jit i) \<le> sleep_limit"
    if "int k \<le> max_retries" for k i
  proof -
    have "base_delay ^ k \<le> max 1 (base_delay ^ nat max_retries)"
    proof (cases "base_delay = 0")
      case True
      then have "base_delay ^ k \<le> 1" by (cases k) simp_all
      then show ?thesis by simp
    next
      case False
      with assms(2) have "1 \<le> base_delay" by simp
      moreover from that have "k \<le> nat max_retries" by simp
      ultimately have "base_delay ^ k \<le> base_delay ^ nat max_retries"
        by (rule power_increasing [rotated])
      then show ?thesis by simp
    qed
    then have "real_of_int (base_delay ^ k) \<le> real_of_int (max 1 (base_delay ^ nat max_retries))"
      by (simp only: of_int_le_iff)
    moreover from assms(4) have "jit i \<le> 1" by simp
    ultimately have "real_of_int (base_delay ^ k) + jit i
                      \<le> real_of_int (max 1 (base_delay ^ nat max_retries)) + 1"
      by (rule add_mono)
    moreover have "real_of_int (max 1 (base_delay ^ nat max_retries)) + 1 \<le> sleep_limit"
      using assms(3) sleep_limit_bounds(1) by (simp add: max_def)
    ultimately show ?thesis unfolding delay_value_def by (rule order_trans)
  qed
  have reach: "?call = retry_loop cap jit prompt max_retries base_delay n (?after n)"
    if "n \<le> N" "int n \<le> max_retries" for n
  proof -
    from assms(5) that(1)
    have f: "\<forall>i<n. \<exists>msg. cap (calls w + i) prompt = Failure msg \<and> contains ''429'' msg" by auto
    have g: "\<forall>i<n. \<not> float_overflow (base_delay ^ (0 + i))
                \<and> 0 \<le> delay_value base_delay (0 + i) (jit (draws w + i))
                \<and> delay_value base_delay (0 + i) (jit (draws w + i)) \<le> sleep_limit"
      using range nonneg short that(2) by auto
    from retry_loop_rate_limited
           [where cap = cap and w = w and prompt = prompt and n = n and k = 0
              and max_retries = max_retries and jit = jit and base_delay = base_delay, OF f _ g]
         that(2)
    show ?thesis by (simp add: call_with_retry_def)
  qed
  have ok: "?call = (Returned r, ?final N)"
    if "cap (calls w + N) prompt = Response r" "int N \<le> max_retries"
    using reach [of N] that retry_loop_response [of N max_retries cap "?after N" prompt r jit base_delay]
    by simp
  have other: "?call = (Raised msg, ?final N)"
    if "cap (calls w + N) prompt = Failure msg" "\<not> contains ''429'' msg" "int N \<le> max_retries"
    using reach [of N] that
      retry_loop_other_error [of N max_retries cap "?after N" prompt msg jit base_delay]
    by simp
  have exhausted: "\<exists>msg. contains ''429'' msg \<and> ?call = (Raised msg, ?final (nat max_retries))"
    if "max_retries < int N"
  proof -
    let ?M = "nat max_retries"
    from that assms(1) have M: "?M < N" "int ?M = max_retries" by auto
    with assms(5) obtain msg where
      m: "cap (calls w + ?M) prompt = Failure msg" "contains ''429'' msg" by blast
    from M have "?call = retry_loop cap jit prompt max_retries base_delay ?M (?after ?M)"
      by (intro reach) auto
    also have "\<dots> = (Raised msg, ?final ?M)"
      using retry_loop_exhausted [of ?M max_retries cap "?after ?M" prompt msg jit base_delay] m M
      by simp
    finally show ?thesis using m(2) by blast
  qed
  have iff: "(fst ?call = Returned r) = (int N \<le> max_retries)"
    if "cap (calls w + N) prompt = Response r"
  proof (cases "int N \<le> max_retries")
    case True
    with ok [OF that] show ?thesis by simp
  next
    case False
    with exhausted show ?thesis by auto
  qed
  have mono: "delay_value base_delay j 0 < delay_value base_delay k 0"
    if "2 \<le> base_delay" "j < k" for j k
  proof -
    from that have "base_delay ^ j < base_delay ^ k"
      by (intro power_strict_increasing) auto
    then have "real_of_int (base_delay ^ j) < real_of_int (base_delay ^ k)"
      by (simp only: of_int_less_iff)
    then show ?thesis by (simp only: delay_value_def add_less_cancel_right)
  qed
  have low: "delay_value base_delay k 0 \<le> delay_value base_delay k u" if "0 \<le> u" for k u
    using that by (simp add: delay_value_def)
  have slept: "backoff_delay base_delay k (jit i) = Some (delay_value base_delay k (jit i))
            \<and> delay_value base_delay k 0 \<le> delay_value base_delay k (jit i)
            \<and> delay_value base_delay k (jit i) \<le> delay_value base_delay k 0 + 1"
    if "k < nat max_retries" for k i
  proof -
    from that have "int k \<le> max_retries" by simp
    then have "\<not> float_overflow (base_delay ^ k)" by (rule range)
    then show ?thesis using assms(4) by (simp add: backoff_delay_def delay_value_def)
  qed
  show ?thesis
    using ok other exhausted iff mono low slept by blast
qed

theorem call_with_retry_contract_witness:
  "(0::int) \<le> 5 \<and> (0::int) \<le> 2
   \<and> real_of_int (2 ^ nat 5) + 1 \<le> sleep_limit
   \<and> (0::real) \<le> 1 / 2 \<and> (1 / 2 :: real) \<le> 1
   \<and> flaky 2 (calls world0 + 0) ''p'' = Failure ''429 Too Many Requests''
   \<and> flaky 2 (calls world0 + 1) ''p'' = Failure ''429 Too Many Requests''
   \<and> contains ''429'' ''429 Too Many Requests''
   \<and> flaky 2 (calls world0 + 2) ''p'' = Response ''ok''
   \<and> call_with_retry (flaky 2) (\<lambda>n. 1 / 2) ''p'' 5 2 world0 =
       (Returned ''ok'', \<lparr>calls = 3, draws = 2, sleeps = [3 / 2, 5 / 2]\<rparr>)"
proof -
  have h1: "(0::int) \<le> 5" and h2: "(0::int) \<le> 2" by simp_all
  have h3: "real_of_int (2 ^ nat 5) + 1 \<le> sleep_limit" by (simp add: sleep_limit_def)
  have h4: "\<forall>i::nat. (0::real) \<le> (\<lambda>n::nat. 1 / 2 :: real) i \<and> (\<lambda>n::nat. 1 / 2 :: real) i \<le> 1"
    by simp
  have h5: "\<forall>i<2. \<exists>msg. flaky 2 (calls world0 + i) ''p'' = Failure msg \<and> contains ''429'' msg"
    by (simp add: flaky_def world0_def)
  have h6: "flaky 2 (calls world0 + 2) ''p'' = Response ''ok''"
    by (simp add: flaky_def world0_def)
  have up: "[0..<2] = [0, Suc 0]" by (simp add: upt_rec numeral_2_eq_2)
  from call_with_retry_contract
         [where cap = "flaky 2" and w = world0 and prompt = "''p''" and N = 2
            and max_retries = 5 and r = "''ok''" and jit = "\<lambda>n. 1 / 2" and base_delay = 2,
          OF h1 h2 h3 h4 h5] h6
  have "call_with_retry (flaky 2) (\<lambda>n. 1 / 2) ''p'' 5 2 world0 =
       (Returned ''ok'', \<lparr>calls = 3, draws = 2, sleeps = [3 / 2, 5 / 2]\<rparr>)"
    by (simp add: world0_def delay_value_def up)
  moreover have "flaky 2 (calls world0 + 0) ''p'' = Failure ''429 Too Many Requests''"
    and "flaky 2 (calls world0 + 1) ''p'' = Failure ''429 Too Many Requests''"
    and "contains ''429'' ''429 Too Many Requests''"
    by (simp_all add: flaky_def world0_def)
  ultimately show ?thesis using h1 h2 h3 h6 by simp
qed

section \<open>Properties of the prompts and of the generator\<close>


lemma get_template_unknown:
  "content_type \<notin> set [''chunk_summarization'', ''linkedin'', ''twitter'', ''email'',
      ''thought_leadership''] \<Longrightarrow> get_template content_type = []"
  by (simp add: get_template_def TEMPLATES_def)

lemma fallback_unknown:
  "content_type \<notin> set [''linkedin'', ''twitter'', ''email'', ''thought_leadership''] \<Longrightarrow>
   map_of (fallback_prompts t c ci) content_type = None"
  by (simp add: fallback_prompts_def)

lemma build_prompt_unknown_type:
  assumes "content_type \<notin> set [''chunk_summarization'', ''linkedin'', ''twitter'', ''email'',
      ''thought_leadership'']"
  shows "build_prompt e content_type condensed_content original_title [] = Inr []"
proof -
  from assms have "get_template content_type = []" by (rule get_template_unknown)
  moreover from assms have "map_of (fallback_prompts original_title condensed_content []) content_type = None"
    by (intro fallback_unknown) simp
  ultimately show ?thesis
    by (simp add: build_prompt_def add_custom_instruction_def str_format_def)
qed

text \<open>
  Claim C4, evaluated for the content type \<^verbatim>\<open>blog\<close>, which is no template key, and no
  custom instruction: \<^verbatim>\<open>get_template\<close> returns the empty string instead of raising, the
  prompt built is empty, and the generation capability is called with it; what the
  capability answers is returned as the artifact, not the text
  \<^verbatim>\<open>Invalid content type: blog\<close>.
\<close>

theorem create_repurposed_content_unknown_type:
  "build_prompt e ''blog'' ''C'' ''T'' [] = Inr []
   \<and> create_repurposed_content (mock_env (flaky 0)) ''blog'' ''C'' ''T'' [] world0 =
       (''ok'', \<lparr>calls = 1, draws = 0, sleeps = []\<rparr>)"
proof -
  have p: "build_prompt e ''blog'' ''C'' ''T'' [] = Inr []" for e
    by (rule build_prompt_unknown_type) simp
  have "call_with_retry (flaky 0) (\<lambda>n. 0) [] 5 2 world0 =
          (Returned ''ok'', \<lparr>calls = 1, draws = 0, sleeps = []\<rparr>)"
    unfolding call_with_retry_def
    by (subst retry_loop.simps) (simp add: flaky_def world0_def)
  then show ?thesis
    by (simp add: p create_repurposed_content_def mock_env_def)
qed

lemma prefix_set_subset: "prefix xs ys \<Longrightarrow> set xs \<subseteq> set ys"
  by (auto simp: prefix_def)

lemma contains_set_subset: "contains sub s \<Longrightarrow> set sub \<subseteq> set s"
proof (induction s)
  case Nil
  then show ?case by simp
next
  case (Cons c s)
  from Cons.prems have "prefix sub (c # s) \<or> contains sub s" by simp
  then show ?case
  proof
    assume "prefix sub (c # s)"
    then show ?thesis by (rule prefix_set_subset)
  next
    assume "contains sub s"
    with Cons.IH show ?thesis by auto
  qed
qed


lemma no_early_match:
  assumes "x \<in> set u" and "x \<notin> set b" and "b \<noteq> []"
  shows "\<not> prefix u (b @ u @ post)"
  using assms(1)
proof (induction "length u" arbitrary: u post rule: less_induct)
  case less
  show ?case
  proof
    assume "prefix u (b @ u @ post)"
    then have "prefix u b \<or> (\<exists>us. u = b @ us \<and> prefix us (u @ post))"
      by (simp only: prefix_append)
    then consider "prefix u b" | us where "u = b @ us" "prefix us (u @ post)"
      by blast
    then show False
    proof cases
      case 1
      then have "set u \<subseteq> set b" by (rule prefix_set_subset)
      with less.prems assms(2) show False by auto
    next
      case 2
      from less.prems 2(1) assms(2) have x: "x \<in> set us" by auto
      from 2(1) assms(3) have len: "length us < length u" by simp
      from 2(2) have "prefix us ((b @ us) @ post)" by (subst (asm) 2(1))
      then have "prefix us (b @ us @ post)" by simp
      with less.hyps [OF len x] show False by blast
    qed
  qed
qed


lemma split_on_none:
  assumes "x \<in> set sep" and "x \<notin> set s"
  shows "split_on sep acc s = [rev acc @ s]"
  using assms(2)
proof (induction s arbitrary: acc)
  case Nil
  show ?case by simp
next
  case (Cons c s)
  have np: "\<not> prefix sep (c # s)"
    using prefix_set_subset [of sep "c # s"] assms(1) Cons.prems by auto
  from Cons.prems have "x \<notin> set s" by simp
  from Cons.IH [OF this, of "c # acc"] np show ?case by simp
qed

lemma split_on_first:
  assumes "x \<in> set sep" and "x \<notin> set pre"
  shows "split_on sep acc (pre @ sep @ post) = (rev acc @ pre) # split_on sep [] post"
  using assms(2)
proof (induction pre arbitrary: acc)
  case Nil
  from assms(1) obtain c cs where sep: "sep = c # cs" by (cases sep) auto
  have "split_on sep acc (c # (cs @ post)) =
          rev acc # split_on sep [] (drop (length sep) (c # (cs @ post)))"
    by (simp add: sep)
  then show ?case by (simp add: sep)
next
  case (Cons p pre)
  have np: "\<not> prefix sep (p # (pre @ sep @ post))"
    using no_early_match [of x sep "p # pre" post] assms(1) Cons.prems by simp
  from Cons.prems have "x \<notin> set pre" by simp
  from Cons.IH [OF this, of "p # acc"] np show ?case by simp
qed

lemma str_split_once:
  assumes "x \<in> set sep" and "x \<notin> set pre" and "x \<notin> set post"
  shows "str_split (pre @ sep @ post) sep = [pre, post]"
  using split_on_first [OF assms(1,2), of "[]" post] split_on_none [OF assms(1,3), of "[]"]
  by (simp add: str_split_def)

lemma format_literal_plain:
  "brace_free s \<Longrightarrow>
   format_literal sp kw (s @ rest) = map_option ((@) s) (format_literal sp kw rest)"
proof (induction s)
  case Nil
  show ?case by (simp add: option.map_ident)
next
  case (Cons c s)
  then have "c \<noteq> CHR ''{''" "c \<noteq> CHR ''}''" "brace_free s" by (auto simp: brace_free_def)
  with Cons.IH show ?case by (simp add: option.map_comp comp_def)
qed

lemma format_literal_plain_end: "brace_free s \<Longrightarrow> format_literal sp kw s = Some s"
  using format_literal_plain [of s sp kw "[]"] by simp

lemma format_title_field:
  "format_literal sp [(''title'', t), (''content'', c)] (''{title}'' @ rest) =
     map_option ((@) t) (format_literal sp [(''title'', t), (''content'', c)] rest)"
  by (simp add: special_char_def)

lemma format_content_field:
  "format_literal sp [(''title'', t), (''content'', c)] (''{content}'' @ rest) =
     map_option ((@) c) (format_literal sp [(''title'', t), (''content'', c)] rest)"
  by (simp add: special_char_def)

lemma linkedin_template_pieces:
  "LINKEDIN_POST_TEMPLATE =
     (linkedin_intro @ ''{title}'' @ linkedin_guidance) @ ''ARTICLE CONTENT:'' @
     ([newline] @ ''{content}'' @ linkedin_closing)"
  by (simp add: LINKEDIN_POST_TEMPLATE_def linkedin_intro_def linkedin_guidance_def
      linkedin_closing_def newline_def)

lemma linkedin_pieces_brace_free:
  "brace_free linkedin_intro" "brace_free linkedin_guidance" "brace_free linkedin_closing"
  "brace_free IMPORTANT" "brace_free [newline]" "brace_free [newline, newline]"
  "brace_free ''ARTICLE CONTENT:''"
  by (simp_all add: brace_free_def linkedin_intro_def linkedin_guidance_def
      linkedin_closing_def IMPORTANT_def newline_def)

lemma linkedin_split:
  "str_split LINKEDIN_POST_TEMPLATE ''ARTICLE CONTENT:'' =
     [linkedin_intro @ ''{title}'' @ linkedin_guidance, [newline] @ ''{content}'' @ linkedin_closing]"
proof -
  have 1: "CHR ''R'' \<in> set ''ARTICLE CONTENT:''" by simp
  have 2: "CHR ''R'' \<notin> set (linkedin_intro @ ''{title}'' @ linkedin_guidance)"
    by (simp add: linkedin_intro_def linkedin_guidance_def)
  have 3: "CHR ''R'' \<notin> set ([newline] @ ''{content}'' @ linkedin_closing)"
    by (simp add: linkedin_closing_def newline_def)
  show ?thesis
    unfolding linkedin_template_pieces by (rule str_split_once [OF 1 2 3])
qed

text \<open>
  The template with the instruction spliced in, and what \<^verbatim>\<open>format\<close> makes of it when the
  instruction itself is copied by \<^verbatim>\<open>format\<close>.
\<close>

lemma linkedin_add_custom_instruction:
  "custom_instruction \<noteq> [] \<Longrightarrow>
   add_custom_instruction (get_template ''linkedin'') custom_instruction =
     linkedin_intro @ ''{title}'' @ linkedin_guidance @ [newline] @ IMPORTANT @
     custom_instruction @ [newline, newline] @ ''ARTICLE CONTENT:'' @ [newline] @
     ''{content}'' @ linkedin_closing"
proof -
  have g: "get_template ''linkedin'' = LINKEDIN_POST_TEMPLATE"
    by (simp add: get_template_def TEMPLATES_def)
  assume "custom_instruction \<noteq> []"
  then show ?thesis
    unfolding add_custom_instruction_def g linkedin_split by (simp add: Let_def)
qed

lemma linkedin_fallback:
  "map_of (fallback_prompts t c ci) ''linkedin'' = Some (fallback_linkedin t c ci)"
  by (simp add: fallback_prompts_def)

lemma linkedin_prompt_not_empty: "linkedin_prompt_with_directive t c i \<noteq> []"
  by (simp add: linkedin_prompt_with_directive_def linkedin_intro_def)


lemma build_prompt_linkedin_rendered:
  assumes "custom_instruction \<noteq> []"
      and "format_literal (special_field e) [(''title'', t), (''content'', c)]
             (custom_instruction @ [newline, newline] @ ''ARTICLE CONTENT:'' @ [newline] @
              ''{content}'' @ linkedin_closing) =
           map_option ((@) r)
             (format_literal (special_field e) [(''title'', t), (''content'', c)]
               ([newline, newline] @ ''ARTICLE CONTENT:'' @ [newline] @
                ''{content}'' @ linkedin_closing))"
  shows "build_prompt e ''linkedin'' c t custom_instruction =
         Inr (linkedin_prompt_with_directive t c r)"
proof -
  let ?kw = "[(''title'', t), (''content'', c)]"
  let ?sp = "special_field e"
  have tail: "format_literal ?sp ?kw
                ([newline, newline] @ ''ARTICLE CONTENT:'' @ [newline] @ ''{content}'' @ linkedin_closing)
              = Some ([newline, newline] @ ''ARTICLE CONTENT:'' @ [newline] @ c @ linkedin_closing)"
    by (simp only: format_literal_plain [OF linkedin_pieces_brace_free(6)]
        format_literal_plain [OF linkedin_pieces_brace_free(7)]
        format_literal_plain [OF linkedin_pieces_brace_free(5)]
        format_content_field
        format_literal_plain_end [OF linkedin_pieces_brace_free(3)] option.map)
  have "str_format ?sp (add_custom_instruction (get_template ''linkedin'') custom_instruction) ?kw
        = Some (linkedin_prompt_with_directive t c r)"
    unfolding str_format_def linkedin_add_custom_instruction [OF assms(1)]
    by (simp only: format_literal_plain [OF linkedin_pieces_brace_free(1)]
        format_literal_plain [OF linkedin_pieces_brace_free(2)]
        format_literal_plain [OF linkedin_pieces_brace_free(4)]
        format_literal_plain [OF linkedin_pieces_brace_free(5)]
        format_title_field assms(2) tail option.map
        linkedin_prompt_with_directive_def)
  then show ?thesis
    by (simp add: build_prompt_def linkedin_fallback linkedin_prompt_not_empty)
qed

text \<open>
  With an instruction free of braces, the prompt holds the instruction, word for word,
  behind \<^const>\<open>IMPORTANT\<close> and in front of the block \<^verbatim>\<open>ARTICLE CONTENT:\<close>.
\<close>

lemma build_prompt_linkedin_plain:
  assumes "custom_instruction \<noteq> []" and "brace_free custom_instruction"
  shows "build_prompt e ''linkedin'' c t custom_instruction =
         Inr (linkedin_prompt_with_directive t c custom_instruction)"
  by (rule build_prompt_linkedin_rendered [OF assms(1)])
     (simp only: format_literal_plain [OF assms(2)])

lemma build_prompt_linkedin_emojis:
  "build_prompt e ''linkedin'' c t ''use more emojis'' =
     Inr (linkedin_prompt_with_directive t c ''use more emojis'')"
  by (rule build_prompt_linkedin_plain) (simp_all add: brace_free_def)

text \<open>
  Claim C9, evaluated for the custom instruction \<^verbatim>\<open>{title}\<close>, the title \<^verbatim>\<open>T\<close> and the
  content \<^verbatim>\<open>C\<close>: the instruction is spliced into the template before \<^verbatim>\<open>format\<close> runs, so
  its braces are read as a replacement field.  The prompt holds the title where the
  instruction should stand, and the text of the instruction occurs nowhere in it.
\<close>

theorem build_prompt_linkedin_braces:
  "build_prompt e ''linkedin'' ''C'' ''T'' ''{title}'' =
     Inr (linkedin_prompt_with_directive ''T'' ''C'' ''T'')
   \<and> \<not> contains ''{title}'' (linkedin_prompt_with_directive ''T'' ''C'' ''T'')"
proof
  have "''{title}'' \<noteq> []" by simp
  then show "build_prompt e ''linkedin'' ''C'' ''T'' ''{title}'' =
     Inr (linkedin_prompt_with_directive ''T'' ''C'' ''T'')"
    by (rule build_prompt_linkedin_rendered) (simp only: format_title_field)
next
  have "CHR ''{'' \<notin> set (linkedin_prompt_with_directive ''T'' ''C'' ''T'')"
    by (simp add: linkedin_prompt_with_directive_def linkedin_intro_def linkedin_guidance_def
        linkedin_closing_def IMPORTANT_def newline_def)
  then show "\<not> contains ''{title}'' (linkedin_prompt_with_directive ''T'' ''C'' ''T'')"
    using contains_set_subset [of "''{title}''"] by fastforce
qed

section \<open>Properties of the condensation stage\<close>






text \<open>With a negative delay the sleep behind the first of several chunks raises.\<close>

lemma summarize_loop_negative_delay:
  "d < 0 \<Longrightarrow> fst (summarize_loop e t d (c1 # c2 # rest) (acc, w)) = Inl ValueError"
  by (simp add: time_sleep_def split: prod.splits)







section \<open>Properties of the generation loop\<close>



text \<open>With a negative delay the sleep behind the first of several types raises.\<close>

lemma generate_loop_negative_delay:
  "d < 0 \<Longrightarrow> fst (generate_loop e c t d ci (ty1 # ty2 # rest) (res, w)) = Inl ValueError"
  by (simp add: time_sleep_def split: prod.splits)






section \<open>Properties of the orchestrator and of the extractor\<close>







text \<open>
  Claim C6: when the extraction for a URL returns with empty content, \<^verbatim>\<open>repurpose\<close>
  returns the mapping with the single key \<^verbatim>\<open>error\<close> and leaves the outside untouched: no
  summarization call, no generation call, no sleep.
\<close>

theorem repurpose_fetch_failure:
  assumes "fetch_content fe url = Inr content_data" and "fr_content content_data = []"
  shows "repurpose fe e url content_types delay custom_instructions w =
           (Inr [(''error'', ''Failed to fetch content from URL'')], w)"
  using assms by (simp add: repurpose_def)

lemma unreachable_fetch: "fetch_content unreachable_env ''http://example.com'' = Inr empty_result"
  by (simp add: fetch_content_def direct_method_def unreachable_env_def
      fetch_with_regular_requests_def upt_rec html_method_def fetch_with_cloudscraper_def)

theorem repurpose_fetch_failure_witness:
  "fetch_content unreachable_env ''http://example.com'' = Inr empty_result
   \<and> fr_content empty_result = []
   \<and> repurpose unreachable_env (mock_env (answering ''ok'')) ''http://example.com''
        [''linkedin'', ''twitter''] 2 None world0 =
      (Inr [(''error'', ''Failed to fetch content from URL'')], world0)"
proof -
  have h2: "fr_content empty_result = []" by (simp add: empty_result_def)
  from repurpose_fetch_failure [OF unreachable_fetch h2] unreachable_fetch h2
  show ?thesis by blast
qed

text \<open>
  When the second method raises nothing but \<^verbatim>\<open>RequestException\<close>, \<^verbatim>\<open>fetch_content\<close>
  returns the result of the first method that has one, and the empty result otherwise.
\<close>

lemma regular_attempts_contained:
  assumes "\<forall>n. make_headers fe url n = None \<or> make_headers fe url n = Some RequestException"
      and "\<forall>n. requests_get fe url n = Inl RequestException
               \<or> (\<exists>r. requests_get fe url n = Inr r)"
  shows "\<exists>html. regular_attempts fe url attempts = Inr html"
proof (induction attempts)
  case Nil
  show ?case by simp
next
  case (Cons attempt rest)
  from assms(1) have h: "make_headers fe url attempt = None
                          \<or> make_headers fe url attempt = Some RequestException" by blast
  from assms(2) have g: "requests_get fe url attempt = Inl RequestException
                          \<or> (\<exists>r. requests_get fe url attempt = Inr r)" by blast
  from h g Cons.IH show ?case by (auto split: prod.splits)
qed

lemma html_method_content: "html_method fe html = Some r \<Longrightarrow> fr_content r \<noteq> []"
  by (auto simp: html_method_def Let_def split: option.splits if_splits)

lemma fetch_content_cascade:
  assumes "fetch_with_regular_requests fe url = Inr html_content"
  shows "fetch_content fe url =
           Inr (case direct_method fe url of
                  Some r \<Rightarrow> r
                | None \<Rightarrow>
                    (case html_method fe html_content of
                       Some r \<Rightarrow> r
                     | None \<Rightarrow>
                         (case html_method fe (fetch_with_cloudscraper fe url) of
                            Some r \<Rightarrow> r
                          | None \<Rightarrow> empty_result)))"
  using assms by (simp add: fetch_content_def split: option.splits)

text \<open>
  Claim C5, evaluated for the URL \<^verbatim>\<open>http://[\<close>: \<^verbatim>\<open>urlparse\<close> raises a
  \<^verbatim>\<open>ValueError\<close> inside \<^verbatim>\<open>get_random_headers\<close>; the handler of
  \<^verbatim>\<open>fetch_with_regular_requests\<close> catches \<^verbatim>\<open>RequestException\<close> only, so the exception
  leaves \<^verbatim>\<open>fetch_content\<close> instead of counting as a failed strategy.  The third strategy,
  whose handler is \<^verbatim>\<open>except Exception\<close>, gives \<^verbatim>\<open>None\<close> for the same URL.
\<close>

theorem fetch_content_raises:
  "fetch_content unreachable_env ''http://['' = Inl OtherException
   \<and> fetch_with_cloudscraper unreachable_env ''http://['' = None"
  by (simp add: fetch_content_def direct_method_def unreachable_env_def
      fetch_with_regular_requests_def upt_rec fetch_with_cloudscraper_def)

end
